theory Spec2Isabelle
  imports Main "HOL-Library.Product_Lexorder" "HOL-Library.Multiset"
begin

section \<open>JavaScript values and operators used by the handlers\<close>

text \<open>
  Values found in \<^verbatim>\<open>req.query\<close> and \<^verbatim>\<open>req.body\<close>. \<open>JObj\<close> stands for an array or a
  nested object (a repeated query key, a bracketed form field): truthy, and without a
  \<^verbatim>\<open>trim\<close> method. Numbers are integers here.
\<close>

datatype jsval = JUndefined | JNull | JBool bool | JNum int | JStr string | JObj

fun truthy :: "jsval \<Rightarrow> bool" where
  "truthy JUndefined = False"
| "truthy JNull = False"
| "truthy (JBool b) = b"
| "truthy (JNum n) = (n \<noteq> 0)"
| "truthy (JStr s) = (s \<noteq> [])"
| "truthy JObj = True"

text \<open>\<^verbatim>\<open>a || b\<close>\<close>

definition js_or :: "jsval \<Rightarrow> jsval \<Rightarrow> jsval" where
  "js_or a b = (if truthy a then a else b)"

text \<open>
  A string is the sequence of the UTF-8 bytes of its text. \<^verbatim>\<open>String.prototype.trim\<close>
  removes from both ends the code points that ECMAScript calls WhiteSpace or
  LineTerminator: U+0009 to U+000D, U+0020, U+00A0, U+1680, U+2000 to U+200A, U+2028,
  U+2029, U+202F, U+205F, U+3000 and U+FEFF. Their UTF-8 encodings:
\<close>

definition js_white_space :: "string list" where
  "js_white_space =
     [[CHR 0x09], [CHR 0x0A], [CHR 0x0B], [CHR 0x0C], [CHR 0x0D], [CHR 0x20],
      [CHR 0xC2, CHR 0xA0],
      [CHR 0xE1, CHR 0x9A, CHR 0x80],
      [CHR 0xE2, CHR 0x80, CHR 0x80], [CHR 0xE2, CHR 0x80, CHR 0x81],
      [CHR 0xE2, CHR 0x80, CHR 0x82], [CHR 0xE2, CHR 0x80, CHR 0x83],
      [CHR 0xE2, CHR 0x80, CHR 0x84], [CHR 0xE2, CHR 0x80, CHR 0x85],
      [CHR 0xE2, CHR 0x80, CHR 0x86], [CHR 0xE2, CHR 0x80, CHR 0x87],
      [CHR 0xE2, CHR 0x80, CHR 0x88], [CHR 0xE2, CHR 0x80, CHR 0x89],
      [CHR 0xE2, CHR 0x80, CHR 0x8A],
      [CHR 0xE2, CHR 0x80, CHR 0xA8], [CHR 0xE2, CHR 0x80, CHR 0xA9],
      [CHR 0xE2, CHR 0x80, CHR 0xAF],
      [CHR 0xE2, CHR 0x81, CHR 0x9F],
      [CHR 0xE3, CHR 0x80, CHR 0x80],
      [CHR 0xEF, CHR 0xBB, CHR 0xBF]]"

text \<open>
  The number of bytes of the first of the sequences \<open>ws\<close> with which \<open>s\<close> starts
  (0 when it starts with none), and \<open>s\<close> without every such sequence at its head.
\<close>

definition ws_head :: "string list \<Rightarrow> string \<Rightarrow> nat" where
  "ws_head ws s =
     (case find (\<lambda>w. take (length w) s = w) ws of None \<Rightarrow> 0 | Some w \<Rightarrow> length w)"

function strip_head :: "string list \<Rightarrow> string \<Rightarrow> string" where
  "strip_head ws s =
     (if s = [] \<or> ws_head ws s = 0 then s else strip_head ws (drop (ws_head ws s) s))"
  by pat_completeness auto
termination
  by (relation "measure (\<lambda>(ws, s). length s)") auto

text \<open>
  The tail is trimmed on the reversed string, against the reversed encodings (a UTF-8
  text that ends with the bytes of a code point ends with that code point).
\<close>

definition js_trim :: "string \<Rightarrow> string" where
  "js_trim s = rev (strip_head (map rev js_white_space) (rev (strip_head js_white_space s)))"

text \<open>\<^verbatim>\<open>s.split(c)\<close> for a one-character separator: never the empty list.\<close>

fun split_on :: "char \<Rightarrow> string \<Rightarrow> string list" where
  "split_on c [] = [[]]"
| "split_on c (x # xs) =
     (if x = c then [] # split_on c xs
      else (case split_on c xs of
              w # ws \<Rightarrow> (x # w) # ws
            | [] \<Rightarrow> [[x]]))"

section \<open>The relational store\<close>

text \<open>
  A timestamp is a calendar day (a day number) and the second within that day; the
  lexicographic order on the pair is the chronological order, and SQL's \<^verbatim>\<open>DATE(t)\<close> is
  the first component.
\<close>

type_synonym timestamp = "nat \<times> nat"

definition DATE :: "timestamp \<Rightarrow> nat" where
  "DATE t = fst t"

text \<open>
  The three tables, with the columns of the statements in \<^verbatim>\<open>routes/events.js\<close>. Text
  columns are nullable (\<open>None\<close> is NULL); key and numeric columns are integers.
\<close>

record event =
  event_id :: int
  title :: "string option"
  description :: "string option"
  date :: timestamp
  location :: "string option"
  price :: int
  image_url :: "string option"
  mode :: "string option"
  meeting_link :: "string option"
  capacity :: int
  organizer_id :: int
  available_seats :: int

record booking =
  booking_id :: int
  b_event_id :: int
  b_user_id :: int
  booking_date :: timestamp
  status :: "string option"

record user =
  user_id :: int
  name :: "string option"
  email :: "string option"
  role :: "string option"

record store =
  events :: "event list"
  bookings :: "booking list"
  users :: "user list"
  next_event_id :: int

text \<open>The decoded token payload that the middleware puts in \<^verbatim>\<open>req.user\<close>.\<close>

record identity =
  id_user_id :: int
  id_role :: string

text \<open>
  What the handlers take from outside this file: the token verifier
  (\<^verbatim>\<open>jwt.verify\<close> with the configured secret) and the store's conversions of a textual
  parameter to the type of the column it is compared with or stored in.
  \<^item> \<open>key_of s\<close>: the integer that the text \<open>s\<close> equals when compared with an integer
    key column, if any;
  \<^item> \<open>day_of s\<close>: the calendar day that the text \<open>s\<close> equals when compared with
    \<^verbatim>\<open>DATE(e.date)\<close>, if any;
  \<^item> \<open>like v p\<close>: \<^verbatim>\<open>v LIKE p\<close> under the column's collation;
  \<^item> \<open>num_of\<close>, \<open>ts_of\<close>: a text stored into a numeric or a timestamp column
    (\<open>None\<close>: the store rejects the statement);
  \<^item> \<open>num_text\<close>: a number stored into a text column.
\<close>

record env =
  jwt_verify :: "string \<Rightarrow> identity option"
  key_of :: "string \<Rightarrow> int option"
  day_of :: "string \<Rightarrow> nat option"
  like :: "string option \<Rightarrow> string \<Rightarrow> bool"
  num_of :: "string \<Rightarrow> int option"
  ts_of :: "string \<Rightarrow> timestamp option"
  num_text :: "int \<Rightarrow> string"

text \<open>
  \<^verbatim>\<open>await db.query(...)\<close> either rejects with an error carrying a message or resolves
  with the statement's result. Which of the two happens at the \<open>k\<close>-th statement of a
  request is an input: \<open>flt k = Some msg\<close> is a failure with message \<open>msg\<close>.
\<close>

type_synonym faults = "nat \<Rightarrow> string option"

definition db_query :: "faults \<Rightarrow> nat \<Rightarrow> 'a \<Rightarrow> string + 'a" where
  "db_query flt k r = (case flt k of Some msg \<Rightarrow> Inl msg | None \<Rightarrow> Inr r)"

subsection \<open>The listing statement\<close>

text \<open>
  \<^verbatim>\<open>SELECT e.*, (e.capacity - COUNT(b.booking_id)) AS available_seats
  FROM events e LEFT JOIN bookings b ON e.event_id = b.event_id
  WHERE 1=1 [AND e.location LIKE ?] [AND DATE(e.date) = ?]
  GROUP BY e.event_id ORDER BY e.date ASC\<close>
\<close>

definition join_rows :: "booking list \<Rightarrow> event \<Rightarrow> (event \<times> booking option) list" where
  "join_rows bs e =
     (case filter (\<lambda>b. event_id e = b_event_id b) bs of
        [] \<Rightarrow> [(e, None)]
      | m # ms \<Rightarrow> map (\<lambda>b. (e, Some b)) (m # ms))"

definition left_join :: "event list \<Rightarrow> booking list \<Rightarrow> (event \<times> booking option) list" where
  "left_join es bs = concat (map (join_rows bs) es)"

definition where_clause :: "env \<Rightarrow> string option \<Rightarrow> string option \<Rightarrow> event \<Rightarrow> bool" where
  "where_clause en loc dt e =
     ((case loc of None \<Rightarrow> True | Some l \<Rightarrow> like en (location e) (''%'' @ l @ ''%''))
      \<and> (case dt of None \<Rightarrow> True | Some d \<Rightarrow> day_of en d = Some (DATE (date e))))"

text \<open>
  One group per \<^verbatim>\<open>event_id\<close>, in order of first appearance: the group's \<^verbatim>\<open>e.*\<close>
  columns are those of its first row, with the \<^verbatim>\<open>b\<close> side of every row of the group.
\<close>

function group_by_event_id ::
  "(event \<times> booking option) list \<Rightarrow> (event \<times> booking option list) list" where
  "group_by_event_id [] = []"
| "group_by_event_id ((e, b) # rs) =
     (e, b # map snd (filter (\<lambda>r. event_id (fst r) = event_id e) rs))
     # group_by_event_id (filter (\<lambda>r. event_id (fst r) \<noteq> event_id e) rs)"
  by pat_completeness auto
termination
  by (relation "measure length") (auto simp: less_Suc_eq_le)

text \<open>\<^verbatim>\<open>COUNT(b.booking_id)\<close> counts the rows of the group whose \<^verbatim>\<open>b\<close> side is not NULL.\<close>

definition count_booking_id :: "booking option list \<Rightarrow> nat" where
  "count_booking_id bs = length (filter (\<lambda>b. b \<noteq> None) bs)"

text \<open>
  The computed column is named like a column of \<^verbatim>\<open>e.*\<close>: in the row object the later
  one replaces the stored one.
\<close>

definition seats_row :: "event \<times> booking option list \<Rightarrow> event" where
  "seats_row g = (fst g)\<lparr>available_seats := capacity (fst g) - int (count_booking_id (snd g))\<rparr>"

definition select_events_seats :: "env \<Rightarrow> string option \<Rightarrow> string option \<Rightarrow> store \<Rightarrow> event list" where
  "select_events_seats en loc dt db =
     sort_key date
       (map seats_row
         (group_by_event_id
           (filter (\<lambda>r. where_clause en loc dt (fst r))
             (left_join (events db) (bookings db)))))"

subsection \<open>The other statements\<close>

text \<open>\<^verbatim>\<open>SELECT * FROM events WHERE event_id = ?\<close>\<close>

definition select_event :: "env \<Rightarrow> string \<Rightarrow> store \<Rightarrow> event list" where
  "select_event en eventId db = filter (\<lambda>e. key_of en eventId = Some (event_id e)) (events db)"

text \<open>\<^verbatim>\<open>SELECT * FROM events WHERE organizer_id = ? ORDER BY date DESC\<close>\<close>

definition select_my_events :: "int \<Rightarrow> store \<Rightarrow> event list" where
  "select_my_events uid db = rev (sort_key date (filter (\<lambda>e. organizer_id e = uid) (events db)))"

text \<open>\<^verbatim>\<open>SELECT * FROM events WHERE event_id = ? AND organizer_id = ?\<close>\<close>

definition select_owned_event :: "env \<Rightarrow> string \<Rightarrow> int \<Rightarrow> store \<Rightarrow> event list" where
  "select_owned_event en eventId organizerId db =
     filter (\<lambda>e. key_of en eventId = Some (event_id e) \<and> organizer_id e = organizerId) (events db)"

text \<open>
  \<^verbatim>\<open>SELECT u.name, u.email, b.booking_date, b.status
  FROM bookings b JOIN users u ON b.user_id = u.user_id WHERE b.event_id = ?\<close>
\<close>

record attendee =
  a_name :: "string option"
  a_email :: "string option"
  a_booking_date :: timestamp
  a_status :: "string option"

definition inner_join :: "booking list \<Rightarrow> user list \<Rightarrow> (booking \<times> user) list" where
  "inner_join bs us = concat (map (\<lambda>b. map (Pair b) (filter (\<lambda>u. b_user_id b = user_id u) us)) bs)"

definition attendee_row :: "booking \<times> user \<Rightarrow> attendee" where
  "attendee_row r =
     \<lparr>a_name = name (snd r), a_email = email (snd r),
      a_booking_date = booking_date (fst r), a_status = status (fst r)\<rparr>"

definition select_attendees :: "env \<Rightarrow> string \<Rightarrow> store \<Rightarrow> attendee list" where
  "select_attendees en eventId db =
     map attendee_row
       (filter (\<lambda>r. key_of en eventId = Some (b_event_id (fst r)))
         (inner_join (bookings db) (users db)))"

section \<open>Requests and responses\<close>

datatype http_method = GET | POST | DELETE | OtherMethod

text \<open>
  A request as the router sees it: the path below the mount point, split at the slashes
  and decoded; the \<^verbatim>\<open>authorization\<close> header; the parsed query and body (a field that
  is absent reads as \<open>JUndefined\<close>); the name under which the upload middleware stored
  the file of the \<^verbatim>\<open>image\<close> field, if there was one; \<^verbatim>\<open>req.protocol\<close> and the
  \<^verbatim>\<open>host\<close> header.
\<close>

record request =
  req_method :: http_method
  req_path :: "string list"
  authorization :: "string option"
  query :: "string \<Rightarrow> jsval"
  body :: "string \<Rightarrow> jsval"
  req_file :: "string option"
  protocol :: string
  host :: string

datatype payload =
    ErrorP string
  | RowsP "event list"
  | EventP event
  | RosterP event "attendee list" int
  | CreatedP string int
  | MessageP string

record response =
  code :: nat
  payload :: payload

definition json :: "nat \<Rightarrow> payload \<Rightarrow> response" where
  "json c p = \<lparr>code = c, payload = p\<rparr>"

section \<open>The middleware \<^verbatim>\<open>authenticateToken\<close>\<close>

text \<open>\<^verbatim>\<open>authHeader && authHeader.split(" ")[1]\<close>, with \<open>None\<close> for a falsy token.\<close>

definition bearer_token :: "string option \<Rightarrow> string option" where
  "bearer_token authHeader =
     (case authHeader of
        None \<Rightarrow> None
      | Some h \<Rightarrow>
          (if h = [] then None
           else (case split_on CHR '' '' h of
                   _ # t # _ \<Rightarrow> (if t = [] then None else Some t)
                 | _ \<Rightarrow> None)))"

definition authenticateToken :: "env \<Rightarrow> request \<Rightarrow> response + identity" where
  "authenticateToken en req =
     (case bearer_token (authorization req) of
        None \<Rightarrow> Inl (json 401 (ErrorP ''Missing token''))
      | Some token \<Rightarrow>
          (case jwt_verify en token of
             None \<Rightarrow> Inl (json 403 (ErrorP ''Invalid token''))
           | Some u \<Rightarrow> Inr u))"

section \<open>The handlers\<close>

subsection \<open>1. GET /\<close>

text \<open>
  \<^verbatim>\<open>v && v.trim() !== ""\<close>: \<open>Inr (Some s)\<close> when the filter \<open>s\<close> applies, \<open>Inr None\<close>
  when it does not, \<open>Inl ()\<close> for the TypeError of a truthy value that has no \<^verbatim>\<open>trim\<close>.
\<close>

fun safe_filter :: "jsval \<Rightarrow> unit + string option" where
  "safe_filter (JStr s) = (if s \<noteq> [] \<and> js_trim s \<noteq> [] then Inr (Some s) else Inr None)"
| "safe_filter v = (if truthy v then Inl () else Inr None)"

definition get_events :: "env \<Rightarrow> store \<Rightarrow> faults \<Rightarrow> request \<Rightarrow> response" where
  "get_events en db flt req =
     (case safe_filter (query req ''location'') of
        Inl _ \<Rightarrow> json 500 (ErrorP ''Failed to fetch events'')
      | Inr loc \<Rightarrow>
     (case safe_filter (query req ''date'') of
        Inl _ \<Rightarrow> json 500 (ErrorP ''Failed to fetch events'')
      | Inr dt \<Rightarrow>
     (case db_query flt 0 (select_events_seats en loc dt db) of
        Inl _ \<Rightarrow> json 500 (ErrorP ''Failed to fetch events'')
      | Inr rows \<Rightarrow> json 200 (RowsP rows))))"

subsection \<open>2. GET /:id\<close>

definition get_event :: "env \<Rightarrow> store \<Rightarrow> faults \<Rightarrow> string \<Rightarrow> response" where
  "get_event en db flt eventId =
     (case db_query flt 0 (select_event en eventId db) of
        Inl msg \<Rightarrow> json 500 (ErrorP msg)
      | Inr [] \<Rightarrow> json 404 (ErrorP ''Event not found'')
      | Inr (e # _) \<Rightarrow> json 200 (EventP e))"

subsection \<open>3. GET /my-events\<close>

definition get_my_events :: "store \<Rightarrow> faults \<Rightarrow> identity \<Rightarrow> response" where
  "get_my_events db flt u =
     (case db_query flt 0 (select_my_events (id_user_id u) db) of
        Inl msg \<Rightarrow> json 500 (ErrorP msg)
      | Inr rows \<Rightarrow> json 200 (RowsP rows))"

subsection \<open>4. GET /:id/attendees\<close>

definition get_attendees :: "env \<Rightarrow> store \<Rightarrow> faults \<Rightarrow> string \<Rightarrow> identity \<Rightarrow> response" where
  "get_attendees en db flt eventId u =
     (case db_query flt 0 (select_owned_event en eventId (id_user_id u) db) of
        Inl _ \<Rightarrow> json 500 (ErrorP ''Server error fetching attendees'')
      | Inr [] \<Rightarrow> json 403 (ErrorP ''Unauthorized or Event not found'')
      | Inr (e # _) \<Rightarrow>
          (case db_query flt 1 (select_attendees en eventId db) of
             Inl _ \<Rightarrow> json 500 (ErrorP ''Server error fetching attendees'')
           | Inr attendees \<Rightarrow>
               json 200 (RosterP e attendees (int (length attendees) * price e))))"

subsection \<open>5. POST /\<close>

text \<open>
  A JavaScript value bound to a \<^verbatim>\<open>?\<close> of the INSERT and stored in a text, a numeric or
  a timestamp column. The outer \<open>None\<close> is a statement that the store rejects.
  \<^verbatim>\<open>undefined\<close> and \<^verbatim>\<open>null\<close> are bound as NULL, a boolean as \<^verbatim>\<open>true\<close> or \<^verbatim>\<open>false\<close>
  (the numbers 1 and 0), an array or object as a list that does not fit a single
  column. Text columns are taken to be wide enough for every string.
\<close>

fun bind_text :: "env \<Rightarrow> jsval \<Rightarrow> string option option" where
  "bind_text en JUndefined = Some None"
| "bind_text en JNull = Some None"
| "bind_text en (JBool b) = Some (Some (num_text en (if b then 1 else 0)))"
| "bind_text en (JNum n) = Some (Some (num_text en n))"
| "bind_text en (JStr s) = Some (Some s)"
| "bind_text en JObj = None"

fun bind_num :: "env \<Rightarrow> jsval \<Rightarrow> int option" where
  "bind_num en (JBool b) = Some (if b then 1 else 0)"
| "bind_num en (JNum n) = Some n"
| "bind_num en (JStr s) = num_of en s"
| "bind_num en v = None"

fun bind_ts :: "env \<Rightarrow> jsval \<Rightarrow> timestamp option" where
  "bind_ts en (JStr s) = ts_of en s"
| "bind_ts en v = None"


text \<open>
  \<^verbatim>\<open>INSERT INTO events (title, description, date, location, price, image_url, mode,
  meeting_link, capacity, organizer_id, available_seats) VALUES (?, ..., ?)\<close>: the new
  row takes the next key of the table, which is the statement's \<^verbatim>\<open>insertId\<close>.
\<close>

definition insert_event ::
  "env \<Rightarrow> store \<Rightarrow> jsval \<Rightarrow> jsval \<Rightarrow> jsval \<Rightarrow> jsval \<Rightarrow> jsval \<Rightarrow> jsval \<Rightarrow> jsval \<Rightarrow> jsval
     \<Rightarrow> jsval \<Rightarrow> jsval \<Rightarrow> jsval \<Rightarrow> (int \<times> store) option" where
  "insert_event en db p_title p_description p_date p_location p_price p_image_url p_mode
       p_meeting_link p_capacity p_organizer_id p_available_seats =
     (case bind_text en p_title of None \<Rightarrow> None | Some c_title \<Rightarrow>
     (case bind_text en p_description of None \<Rightarrow> None | Some c_description \<Rightarrow>
     (case bind_ts en p_date of None \<Rightarrow> None | Some c_date \<Rightarrow>
     (case bind_text en p_location of None \<Rightarrow> None | Some c_location \<Rightarrow>
     (case bind_num en p_price of None \<Rightarrow> None | Some c_price \<Rightarrow>
     (case bind_text en p_image_url of None \<Rightarrow> None | Some c_image_url \<Rightarrow>
     (case bind_text en p_mode of None \<Rightarrow> None | Some c_mode \<Rightarrow>
     (case bind_text en p_meeting_link of None \<Rightarrow> None | Some c_meeting_link \<Rightarrow>
     (case bind_num en p_capacity of None \<Rightarrow> None | Some c_capacity \<Rightarrow>
     (case bind_num en p_organizer_id of None \<Rightarrow> None | Some c_organizer_id \<Rightarrow>
     (case bind_num en p_available_seats of None \<Rightarrow> None | Some c_available_seats \<Rightarrow>
        Some (next_event_id db,
          db\<lparr>events := events db @
               [\<lparr>event_id = next_event_id db, title = c_title, description = c_description,
                 date = c_date, location = c_location, price = c_price,
                 image_url = c_image_url, mode = c_mode, meeting_link = c_meeting_link,
                 capacity = c_capacity, organizer_id = c_organizer_id,
                 available_seats = c_available_seats\<rparr>],
             next_event_id := next_event_id db + 1\<rparr>))))))))))))"

text \<open>The check mark U+2705 and the wastebasket U+1F5D1 U+FE0F of the messages, in UTF-8.\<close>

definition created_message :: string where
  "created_message = [CHR 0xE2, CHR 0x9C, CHR 0x85] @ '' Event created successfully''"

definition deleted_message :: string where
  "deleted_message =
     [CHR 0xF0, CHR 0x9F, CHR 0x97, CHR 0x91, CHR 0xEF, CHR 0xB8, CHR 0x8F]
     @ '' Event deleted successfully''"

definition create_event ::
  "env \<Rightarrow> store \<Rightarrow> faults \<Rightarrow> request \<Rightarrow> identity \<Rightarrow> response \<times> store" where
  "create_event en db flt req u =
     (let title = body req ''title''; description = body req ''description'';
          date = body req ''date''; location = body req ''location'';
          price = body req ''price''; mode = body req ''mode'';
          meeting_link = body req ''meeting_link''; capacity = body req ''capacity''
      in
        if \<not> truthy title \<or> \<not> truthy date
        then (json 400 (ErrorP ''Title and Date are required''), db)
        else
          (let imageUrl =
                 (case req_file req of
                    None \<Rightarrow> ''https://via.placeholder.com/300''
                  | Some filename \<Rightarrow> protocol req @ ''://'' @ host req @ ''/uploads/'' @ filename);
               finalCapacity = js_or capacity (JNum 100);
               finalMode = js_or mode (JStr ''physical'');
               finalPrice = js_or price (JNum 0)
           in
             (case db_query flt 0
                     (insert_event en db title description date location finalPrice
                        (JStr imageUrl) finalMode meeting_link finalCapacity
                        (JNum (id_user_id u)) finalCapacity) of
                Inl _ \<Rightarrow> (json 500 (ErrorP ''Server error creating event''), db)
              | Inr None \<Rightarrow> (json 500 (ErrorP ''Server error creating event''), db)
              | Inr (Some (insertId, db')) \<Rightarrow> (json 201 (CreatedP created_message insertId), db'))))"

subsection \<open>6. DELETE /:id\<close>

text \<open>
  \<^verbatim>\<open>DELETE FROM events WHERE event_id = ? AND organizer_id = ?\<close>, or for the role
  \<^verbatim>\<open>admin\<close> \<^verbatim>\<open>DELETE FROM events WHERE event_id = ?\<close>; the condition of the statement
  that is run:
\<close>

definition delete_where :: "env \<Rightarrow> string \<Rightarrow> identity \<Rightarrow> event \<Rightarrow> bool" where
  "delete_where en eventId u e =
     (if id_role u = ''admin''
      then key_of en eventId = Some (event_id e)
      else key_of en eventId = Some (event_id e) \<and> organizer_id e = id_user_id u)"

definition delete_event ::
  "env \<Rightarrow> store \<Rightarrow> faults \<Rightarrow> string \<Rightarrow> identity \<Rightarrow> response \<times> store" where
  "delete_event en db flt eventId u =
     (case db_query flt 0 () of
        Inl msg \<Rightarrow> (json 500 (ErrorP msg), db)
      | Inr _ \<Rightarrow>
          (let affectedRows = length (filter (delete_where en eventId u) (events db));
               db' = db\<lparr>events := filter (\<lambda>e. \<not> delete_where en eventId u e) (events db)\<rparr>
           in
             if affectedRows = 0
             then (json 404 (ErrorP ''Event not found or unauthorized''), db')
             else (json 200 (MessageP deleted_message), db')))"

section \<open>The router\<close>

text \<open>
  A route is a method, a path pattern and its chain of middleware and handler. A request
  goes to the first route, in the order of registration, whose method and pattern
  match; no handler of this file passes a request on. A literal segment matches without
  regard to case; \<open>Param\<close> matches any one segment, which becomes \<^verbatim>\<open>req.params.id\<close>.
\<close>

datatype seg = Lit string | Param

definition to_lower :: "char \<Rightarrow> char" where
  "to_lower c =
     (if 65 \<le> (of_char c :: nat) \<and> (of_char c :: nat) \<le> 90
      then char_of ((of_char c :: nat) + 32) else c)"

fun match_path :: "seg list \<Rightarrow> string list \<Rightarrow> string list option" where
  "match_path [] [] = Some []"
| "match_path (Lit l # ps) (s # ss) =
     (if map to_lower l = map to_lower s then match_path ps ss else None)"
| "match_path (Param # ps) (s # ss) =
     (if s = [] then None
      else (case match_path ps ss of None \<Rightarrow> None | Some vs \<Rightarrow> Some (s # vs)))"
| "match_path _ _ = None"

text \<open>\<^verbatim>\<open>req.params.id\<close>: the first captured segment.\<close>

definition params_id :: "string list \<Rightarrow> string" where
  "params_id vs = (case vs of [] \<Rightarrow> [] | v # _ \<Rightarrow> v)"

type_synonym handler = "env \<Rightarrow> store \<Rightarrow> faults \<Rightarrow> request \<Rightarrow> string list \<Rightarrow> response \<times> store"

definition with_auth ::
  "env \<Rightarrow> store \<Rightarrow> request \<Rightarrow> (identity \<Rightarrow> response \<times> store) \<Rightarrow> response \<times> store" where
  "with_auth en db req h =
     (case authenticateToken en req of Inl r \<Rightarrow> (r, db) | Inr u \<Rightarrow> h u)"

definition routes :: "(http_method \<times> seg list \<times> handler) list" where
  "routes =
     [(GET, [], \<lambda>en db flt req vs. (get_events en db flt req, db)),
      (GET, [Param], \<lambda>en db flt req vs. (get_event en db flt (params_id vs), db)),
      (GET, [Lit ''my-events''], \<lambda>en db flt req vs.
         with_auth en db req (\<lambda>u. (get_my_events db flt u, db))),
      (GET, [Param, Lit ''attendees''], \<lambda>en db flt req vs.
         with_auth en db req (\<lambda>u. (get_attendees en db flt (params_id vs) u, db))),
      (POST, [], \<lambda>en db flt req vs.
         with_auth en db req (\<lambda>u. create_event en db flt req u)),
      (DELETE, [Param], \<lambda>en db flt req vs.
         with_auth en db req (\<lambda>u. delete_event en db flt (params_id vs) u))]"

fun dispatch ::
  "(http_method \<times> seg list \<times> handler) list \<Rightarrow> env \<Rightarrow> store \<Rightarrow> faults \<Rightarrow> request
     \<Rightarrow> (response \<times> store) option" where
  "dispatch [] en db flt req = None"
| "dispatch ((m, pat, h) # rs) en db flt req =
     (if m = req_method req
      then (case match_path pat (req_path req) of
              Some vs \<Rightarrow> Some (h en db flt req vs)
            | None \<Rightarrow> dispatch rs en db flt req)
      else dispatch rs en db flt req)"

definition router :: "env \<Rightarrow> store \<Rightarrow> faults \<Rightarrow> request \<Rightarrow> (response \<times> store) option" where
  "router en db flt req = dispatch routes en db flt req"

section \<open>Well-formed stores\<close>

text \<open>
  The integrity constraints of the schema: \<^verbatim>\<open>event_id\<close> and \<^verbatim>\<open>user_id\<close> are primary
  keys, and a booking references an existing user.
\<close>

definition events_keyed :: "store \<Rightarrow> bool" where
  "events_keyed db = distinct (map event_id (events db))"

definition users_keyed :: "store \<Rightarrow> bool" where
  "users_keyed db = distinct (map user_id (users db))"

definition bookings_have_users :: "store \<Rightarrow> bool" where
  "bookings_have_users db = list_all (\<lambda>b. b_user_id b \<in> user_id ` set (users db)) (bookings db)"


section \<open>Notions of the specification\<close>

text \<open>The number of rows of \<^verbatim>\<open>bookings\<close> that reference an event.\<close>

definition booking_count :: "store \<Rightarrow> event \<Rightarrow> nat" where
  "booking_count db e = length (filter (\<lambda>b. b_event_id b = event_id e) (bookings db))"

text \<open>An event as the listing returns it: its columns, with the computed seats.\<close>

definition with_seats :: "store \<Rightarrow> event \<Rightarrow> event" where
  "with_seats db e = e\<lparr>available_seats := capacity e - int (booking_count db e)\<rparr>"

text \<open>A response or a store with the \<^verbatim>\<open>status\<close> of every booking blanked out.\<close>

definition forget_status :: "response \<Rightarrow> response" where
  "forget_status r =
     (case payload r of
        RosterP e as t \<Rightarrow> r\<lparr>payload := RosterP e (map (\<lambda>a. a\<lparr>a_status := None\<rparr>) as) t\<rparr>
      | _ \<Rightarrow> r)"

definition blank_status :: "store \<Rightarrow> store" where
  "blank_status db = db\<lparr>bookings := map (\<lambda>b. b\<lparr>status := None\<rparr>) (bookings db)\<rparr>"

text \<open>The \<^verbatim>\<open>b\<close> side of the joined rows of one event.\<close>

definition join_side :: "booking list \<Rightarrow> event \<Rightarrow> booking option list" where
  "join_side bs e =
     (case filter (\<lambda>b. event_id e = b_event_id b) bs of
        [] \<Rightarrow> [None]
      | m # ms \<Rightarrow> map Some (m # ms))"

section \<open>A sample environment and store\<close>

text \<open>
  Concrete inputs on which the theorems below are instantiated. In the sample
  environment keys, numbers and days are written in decimal, and three tokens verify.
\<close>

definition digit_of :: "char \<Rightarrow> nat option" where
  "digit_of c =
     (if 48 \<le> (of_char c :: nat) \<and> (of_char c :: nat) \<le> 57
      then Some ((of_char c :: nat) - 48) else None)"

fun dec_acc :: "nat \<Rightarrow> string \<Rightarrow> nat option" where
  "dec_acc a [] = Some a"
| "dec_acc a (c # cs) = (case digit_of c of None \<Rightarrow> None | Some d \<Rightarrow> dec_acc (10 * a + d) cs)"

definition dec_nat :: "string \<Rightarrow> nat option" where
  "dec_nat s = (if s = [] then None else dec_acc 0 s)"

definition sample_env :: env where
  "sample_env =
     \<lparr>jwt_verify = (\<lambda>t.
        if t = ''tok7'' then Some \<lparr>id_user_id = 7, id_role = ''organizer''\<rparr>
        else if t = ''tok8'' then Some \<lparr>id_user_id = 8, id_role = ''attendee''\<rparr>
        else if t = ''tok1'' then Some \<lparr>id_user_id = 1, id_role = ''admin''\<rparr>
        else None),
      key_of = (\<lambda>s. map_option int (dec_nat s)),
      day_of = dec_nat,
      like = (\<lambda>v p. case v of None \<Rightarrow> False | Some t \<Rightarrow> p = ''%'' @ t @ ''%''),
      num_of = (\<lambda>s. map_option int (dec_nat s)),
      ts_of = (\<lambda>s. map_option (\<lambda>d. (d, 0)) (dec_nat s)),
      num_text = (\<lambda>n. if 0 \<le> n \<and> n < 10 then [char_of (48 + nat n)] else ''#'')\<rparr>"

definition ev1 :: event where
  "ev1 = \<lparr>event_id = 1, title = Some ''Expo'', description = None, date = (20148, 36000),
     location = Some ''Pune'', price = 20, image_url = Some ''https://via.placeholder.com/300'',
     mode = Some ''physical'', meeting_link = None, capacity = 2, organizer_id = 7,
     available_seats = 2\<rparr>"

definition ev2 :: event where
  "ev2 = \<lparr>event_id = 2, title = Some ''Talk'', description = None, date = (20148, 3600),
     location = Some ''Delhi'', price = 0, image_url = Some ''https://via.placeholder.com/300'',
     mode = Some ''virtual'', meeting_link = Some ''https://meet.example/x'', capacity = 50,
     organizer_id = 8, available_seats = 50\<rparr>"

definition ev3 :: event where
  "ev3 = \<lparr>event_id = 3, title = Some ''Camp'', description = Some ''two days'',
     date = (20100, 0), location = None, price = 15,
     image_url = Some ''https://via.placeholder.com/300'', mode = Some ''physical'',
     meeting_link = None, capacity = 5, organizer_id = 7, available_seats = 5\<rparr>"

definition sample_store :: store where
  "sample_store =
     \<lparr>events = [ev1, ev2, ev3],
      bookings =
        [\<lparr>booking_id = 1, b_event_id = 1, b_user_id = 8, booking_date = (20140, 10),
          status = Some ''confirmed''\<rparr>,
         \<lparr>booking_id = 2, b_event_id = 1, b_user_id = 9, booking_date = (20141, 20),
          status = Some ''cancelled''\<rparr>,
         \<lparr>booking_id = 3, b_event_id = 3, b_user_id = 9, booking_date = (20090, 30),
          status = Some ''confirmed''\<rparr>,
         \<lparr>booking_id = 4, b_event_id = 1, b_user_id = 7, booking_date = (20142, 40),
          status = Some ''confirmed''\<rparr>],
      users =
        [\<lparr>user_id = 7, name = Some ''Asha'', email = Some ''asha@example.org'',
          role = Some ''organizer''\<rparr>,
         \<lparr>user_id = 8, name = Some ''Ben'', email = Some ''ben@example.org'',
          role = Some ''attendee''\<rparr>,
         \<lparr>user_id = 9, name = Some ''Chen'', email = Some ''chen@example.org'',
          role = Some ''attendee''\<rparr>],
      next_event_id = 4\<rparr>"

definition no_faults :: faults where
  "no_faults = (\<lambda>k. None)"

definition sample_request :: request where
  "sample_request =
     \<lparr>req_method = GET, req_path = [], authorization = None, query = (\<lambda>k. JUndefined),
      body = (\<lambda>k. JUndefined), req_file = None, protocol = ''https'',
      host = ''events.example.org''\<rparr>"

text \<open>
  An entry of the roster that belongs to a booking: its date and status, with the name
  and email of the user that the booking references.
\<close>

definition roster_entry :: "user list \<Rightarrow> attendee \<Rightarrow> booking \<Rightarrow> bool" where
  "roster_entry us a b =
     (a_booking_date a = booking_date b \<and> a_status a = status b
      \<and> (\<exists>w\<in>set us. user_id w = b_user_id b \<and> a_name a = name w \<and> a_email a = email w))"

text \<open>More sample inputs: requests with a date filter, with a token, with a body.\<close>

definition dated_request :: "string \<Rightarrow> request" where
  "dated_request s = sample_request\<lparr>query := (query sample_request)(''date'' := JStr s)\<rparr>"

definition sample_call :: "http_method \<Rightarrow> string list \<Rightarrow> string \<Rightarrow> request" where
  "sample_call m p t =
     sample_request\<lparr>req_method := m, req_path := p, authorization := Some (''Bearer '' @ t)\<rparr>"

definition sample_post :: "(string \<Rightarrow> jsval) \<Rightarrow> request" where
  "sample_post b = (sample_call POST [] ''tok7'')\<lparr>body := b\<rparr>"

definition confirmed_store :: store where
  "confirmed_store =
     sample_store\<lparr>bookings := map (\<lambda>b. b\<lparr>status := Some ''confirmed''\<rparr>) (bookings sample_store)\<rparr>"

definition smaller_store :: store where
  "smaller_store = sample_store\<lparr>events := [ev1, ev3]\<rparr>"

definition new_body :: "string \<Rightarrow> jsval" where
  "new_body = (\<lambda>k. if k = ''title'' then JStr ''Fair''
                   else if k = ''date'' then JStr ''20200''
                   else if k = ''capacity'' then JStr ''''
                   else JUndefined)"

section \<open>The listing: what the statement computes\<close>

text \<open>
  On a table keyed by \<^verbatim>\<open>event_id\<close> the joined rows of an event form one group, whose
  count is the number of bookings of the event: the statement returns the events that
  satisfy the WHERE clause, each with its computed seats, sorted by date.
\<close>

lemma join_rows_side: "join_rows bs e = map (Pair e) (join_side bs e)"
  by (simp add: join_rows_def join_side_def split: list.splits)

lemma join_side_ne: "join_side bs e \<noteq> []"
  by (simp add: join_side_def split: list.splits)

lemma count_join_side:
  "count_booking_id (join_side bs e) = length (filter (\<lambda>b. b_event_id b = event_id e) bs)"
proof -
  have eq: "(\<lambda>b. event_id e = b_event_id b) = (\<lambda>b. b_event_id b = event_id e)" by auto
  show ?thesis
    by (cases "filter (\<lambda>b. b_event_id b = event_id e) bs")
       (simp_all add: count_booking_id_def join_side_def eq)
qed

lemma filter_left_join:
  "filter (\<lambda>r. W (fst r)) (left_join es bs) = left_join (filter W es) bs"
  by (induction es) (auto simp: left_join_def join_rows_side filter_map comp_def)

lemma left_join_other:
  "k \<notin> event_id ` set es \<Longrightarrow> filter (\<lambda>r. event_id (fst r) = k) (left_join es bs) = []"
  by (induction es) (auto simp: left_join_def join_rows_side filter_map comp_def)

lemma left_join_other':
  "k \<notin> event_id ` set es \<Longrightarrow> filter (\<lambda>r. event_id (fst r) \<noteq> k) (left_join es bs) = left_join es bs"
  by (induction es) (auto simp: left_join_def join_rows_side filter_map comp_def)

lemma group_left_join:
  "distinct (map event_id es) \<Longrightarrow>
   group_by_event_id (left_join es bs) = map (\<lambda>e. (e, join_side bs e)) es"
proof (induction es)
  case Nil
  then show ?case by (simp add: left_join_def)
next
  case (Cons e es)
  obtain x xs where side: "join_side bs e = x # xs"
    using join_side_ne [of bs e] by (cases "join_side bs e") auto
  have notin: "event_id e \<notin> event_id ` set es" using Cons.prems by auto
  have lj: "left_join (e # es) bs = (e, x) # (map (Pair e) xs @ left_join es bs)"
    by (simp add: left_join_def join_rows_side side)
  show ?case
    using Cons notin
    by (simp add: lj side filter_map comp_def left_join_other left_join_other')
qed

lemma select_events_seats_eq:
  assumes "events_keyed db"
  shows "select_events_seats en loc dt db =
     sort_key date (map (with_seats db) (filter (where_clause en loc dt) (events db)))"
proof -
  have d: "distinct (map event_id (filter (where_clause en loc dt) (events db)))"
    using assms by (simp add: events_keyed_def distinct_map_filter)
  have "seats_row (e, join_side (bookings db) e) = with_seats db e" for e
    by (simp add: seats_row_def count_join_side with_seats_def booking_count_def)
  then show ?thesis
    by (simp add: select_events_seats_def filter_left_join group_left_join [OF d] comp_def)
qed

lemma filter_key_single:
  "distinct (map f xs) \<Longrightarrow> x \<in> set xs \<Longrightarrow> filter (\<lambda>y. f y = f x) xs = [x]"
proof (induction xs)
  case Nil
  then show ?case by simp
next
  case (Cons a xs)
  show ?case
  proof (cases "a = x")
    case True
    have "f x \<notin> f ` set xs" using Cons.prems True by simp
    then have "\<And>y. y \<in> set xs \<Longrightarrow> f y \<noteq> f x"
      by (metis imageI)
    then have "filter (\<lambda>y. f y = f x) xs = []"
      by (simp add: filter_empty_conv)
    with True show ?thesis by simp
  next
    case False
    with Cons have "f a \<noteq> f x" by auto
    with Cons False show ?thesis by simp
  qed
qed

lemma event_id_with_seats: "event_id (with_seats db e) = event_id e"
  by (simp add: with_seats_def)

lemma rows_of_event:
  assumes "events_keyed db" and "e \<in> set (events db)" and "where_clause en loc dt e"
  shows "filter (\<lambda>r. event_id r = event_id e) (select_events_seats en loc dt db) = [with_seats db e]"
proof -
  let ?es = "filter (where_clause en loc dt) (events db)"
  have d: "distinct (map event_id ?es)"
    using assms(1) by (simp add: events_keyed_def distinct_map_filter)
  have m: "e \<in> set ?es" using assms by simp
  have "filter (\<lambda>r. event_id r = event_id e) (map (with_seats db) ?es)
        = map (with_seats db) (filter (\<lambda>y. event_id y = event_id e) ?es)"
    by (simp only: filter_map comp_def event_id_with_seats)
  also have "\<dots> = [with_seats db e]"
    by (simp only: filter_key_single [OF d m] list.map)
  finally show ?thesis
    by (simp add: select_events_seats_eq [OF assms(1)] filter_sort)
qed

lemma sample_keyed: "events_keyed sample_store"
  by (simp add: events_keyed_def sample_store_def ev1_def ev2_def ev3_def)

lemma sample_keys:
  "key_of sample_env ''1'' = Some 1" "key_of sample_env ''2'' = Some 2"
  "key_of sample_env ''3'' = Some 3" "key_of sample_env ''9'' = Some 9"
  by (simp_all add: sample_env_def dec_nat_def digit_of_def)

lemma sample_auth:
  "authenticateToken sample_env (sample_call m p ''tok7'')
     = Inr \<lparr>id_user_id = 7, id_role = ''organizer''\<rparr>"
  "authenticateToken sample_env (sample_call m p ''tok1'')
     = Inr \<lparr>id_user_id = 1, id_role = ''admin''\<rparr>"
  "authenticateToken sample_env (sample_post b)
     = Inr \<lparr>id_user_id = 7, id_role = ''organizer''\<rparr>"
  by (simp_all add: authenticateToken_def bearer_token_def sample_call_def sample_post_def
      sample_request_def sample_env_def)

lemma sample_call_sel:
  "req_method (sample_call m p t) = m" "req_path (sample_call m p t) = p"
  "req_method (sample_post b) = POST" "req_path (sample_post b) = []"
  "body (sample_post b) = b"
  by (simp_all add: sample_call_def sample_post_def)

lemma sample_events:
  "events sample_store = [ev1, ev2, ev3]" "events smaller_store = [ev1, ev3]"
  "event_id ev1 = 1" "event_id ev2 = 2" "event_id ev3 = 3"
  "organizer_id ev1 = 7" "organizer_id ev2 = 8" "organizer_id ev3 = 7"
  "ev1 \<noteq> ev2" "ev1 \<noteq> ev3" "ev2 \<noteq> ev3" "ev2 \<noteq> ev1" "ev3 \<noteq> ev1" "ev3 \<noteq> ev2"
  by (simp_all add: sample_store_def smaller_store_def ev1_def ev2_def ev3_def)

lemma sample_integrity: "users_keyed sample_store" "bookings_have_users sample_store"
  by (simp_all add: users_keyed_def bookings_have_users_def sample_store_def)

text \<open>
  Claim C1. On a store whose \<^verbatim>\<open>event_id\<close> is a key, and when the statement does not
  fail, GET /events answers 200 with a list of rows in which every event \<open>e\<close> of the
  store that passes the filters of the request (every event, when the request has no
  filter) appears exactly once, as \<open>e\<close> with \<^verbatim>\<open>available_seats\<close> replaced by its
  capacity minus the number of booking rows that reference it. With no booking the
  value is the capacity; with more bookings than capacity it is negative.
\<close>

theorem get_events_available_seats:
  assumes "events_keyed db" and "flt 0 = None"
    and "safe_filter (query req ''location'') = Inr loc"
    and "safe_filter (query req ''date'') = Inr dt"
    and "e \<in> set (events db)" and "where_clause en loc dt e"
  shows "\<exists>rows. get_events en db flt req = json 200 (RowsP rows)
     \<and> filter (\<lambda>r. event_id r = event_id e) rows = [with_seats db e]
     \<and> with_seats db e = e\<lparr>available_seats := capacity e - int (booking_count db e)\<rparr>
     \<and> (booking_count db e = 0 \<longrightarrow> available_seats (with_seats db e) = capacity e)
     \<and> (capacity e < int (booking_count db e) \<longrightarrow> available_seats (with_seats db e) < 0)"
proof -
  have "get_events en db flt req = json 200 (RowsP (select_events_seats en loc dt db))"
    using assms(2,3,4) by (simp add: get_events_def db_query_def)
  moreover note rows_of_event [OF assms(1,5,6)]
  ultimately show ?thesis
    by (auto simp: with_seats_def)
qed

theorem get_events_available_seats_witness:
  "events_keyed sample_store \<and> no_faults 0 = None
   \<and> safe_filter (query sample_request ''location'') = Inr None
   \<and> safe_filter (query sample_request ''date'') = Inr None
   \<and> ev1 \<in> set (events sample_store) \<and> where_clause sample_env None None ev1
   \<and> capacity ev1 < int (booking_count sample_store ev1)
   \<and> ev2 \<in> set (events sample_store) \<and> booking_count sample_store ev2 = 0
   \<and> (\<exists>rows. get_events sample_env sample_store no_faults sample_request = json 200 (RowsP rows)
        \<and> filter (\<lambda>r. event_id r = event_id ev1) rows = [ev1\<lparr>available_seats := - 1\<rparr>]
        \<and> filter (\<lambda>r. event_id r = event_id ev2) rows = [ev2\<lparr>available_seats := capacity ev2\<rparr>])"
proof -
  have h1: "no_faults 0 = None" by (simp add: no_faults_def)
  have h2: "safe_filter (query sample_request ''location'') = Inr None"
    by (simp add: sample_request_def)
  have h3: "safe_filter (query sample_request ''date'') = Inr None"
    by (simp add: sample_request_def)
  have h4: "ev1 \<in> set (events sample_store)" "ev2 \<in> set (events sample_store)"
    by (simp_all add: sample_store_def)
  have h5: "where_clause sample_env None None e" for e by (simp add: where_clause_def)
  have c: "booking_count sample_store ev1 = 3" "booking_count sample_store ev2 = 0"
    by (simp_all add: booking_count_def sample_store_def ev1_def ev2_def)
  have s: "with_seats sample_store ev1 = ev1\<lparr>available_seats := - 1\<rparr>"
    "with_seats sample_store ev2 = ev2\<lparr>available_seats := capacity ev2\<rparr>"
    by (simp_all add: with_seats_def c) (simp add: ev1_def)
  have k: "capacity ev1 < 3" by (simp add: ev1_def)
  from get_events_available_seats
            [where db = sample_store and flt = no_faults and req = sample_request
               and loc = None and dt = None and e = ev1 and en = sample_env,
             OF sample_keyed h1 h2 h3 h4(1) h5]
  obtain rows where r: "get_events sample_env sample_store no_faults sample_request = json 200 (RowsP rows)"
    "filter (\<lambda>r. event_id r = event_id ev1) rows = [ev1\<lparr>available_seats := - 1\<rparr>]"
    by (auto simp: s)
  from get_events_available_seats
            [where db = sample_store and flt = no_faults and req = sample_request
               and loc = None and dt = None and e = ev2 and en = sample_env,
             OF sample_keyed h1 h2 h3 h4(2) h5]
  have "filter (\<lambda>r. event_id r = event_id ev2) rows = [ev2\<lparr>available_seats := capacity ev2\<rparr>]"
    by (auto simp: s r(1) json_def)
  with r sample_keyed h1 h2 h3 h4 h5 c k show ?thesis
    by auto
qed

section \<open>The date filter\<close>

lemma get_events_ok:
  assumes "flt 0 = None"
    and "safe_filter (query req ''location'') = Inr loc"
    and "safe_filter (query req ''date'') = Inr dt"
  shows "get_events en db flt req = json 200 (RowsP (select_events_seats en loc dt db))"
  using assms by (simp add: get_events_def db_query_def)

lemma safe_filter_blank:
  "\<not> truthy v \<or> (\<exists>s. v = JStr s \<and> js_trim s = []) \<Longrightarrow> safe_filter v = Inr None"
  by (cases v) auto

lemma get_events_drop_date:
  assumes "safe_filter (query req ''date'') = Inr None"
  shows "get_events en db flt req
       = get_events en db flt (req\<lparr>query := (query req)(''date'' := JUndefined)\<rparr>)"
  using assms by (simp add: get_events_def split: sum.splits)

text \<open>
  Claim C7. When the request carries a date filter that is not blank, GET /events
  returns exactly the events (each with its computed seats) whose timestamp has the
  calendar day that the store reads in the given text, whatever the second of the day
  stored with it (and that pass the location filter, if there is one). A date filter
  that is absent or blank changes nothing: the answer is that of the same request
  without it.
\<close>

theorem get_events_date_filter:
  assumes "events_keyed db" and "flt 0 = None"
    and "safe_filter (query req ''location'') = Inr loc"
  shows "(query req ''date'' = JStr s \<and> js_trim s \<noteq> [] \<longrightarrow>
            (\<exists>rows. get_events en db flt req = json 200 (RowsP rows)
               \<and> set rows = with_seats db `
                   {e \<in> set (events db).
                      where_clause en loc None e \<and> day_of en s = Some (fst (date e))}))
       \<and> (\<not> truthy (query req ''date'') \<or> (\<exists>t. query req ''date'' = JStr t \<and> js_trim t = []) \<longrightarrow>
            get_events en db flt req
            = get_events en db flt (req\<lparr>query := (query req)(''date'' := JUndefined)\<rparr>))"
proof (intro conjI impI)
  assume a: "query req ''date'' = JStr s \<and> js_trim s \<noteq> []"
  then have "s \<noteq> []" by (auto simp: js_trim_def)
  with a have f: "safe_filter (query req ''date'') = Inr (Some s)" by simp
  have w: "where_clause en loc (Some s) e
           = (where_clause en loc None e \<and> day_of en s = Some (fst (date e)))" for e
    by (simp add: where_clause_def DATE_def)
  show "\<exists>rows. get_events en db flt req = json 200 (RowsP rows)
               \<and> set rows = with_seats db `
                   {e \<in> set (events db).
                      where_clause en loc None e \<and> day_of en s = Some (fst (date e))}"
  proof (intro exI conjI)
    show "get_events en db flt req = json 200 (RowsP (select_events_seats en loc (Some s) db))"
      using get_events_ok [of flt req loc "Some s" en db] assms(2,3) f by simp
    show "set (select_events_seats en loc (Some s) db) = with_seats db `
                   {e \<in> set (events db).
                      where_clause en loc None e \<and> day_of en s = Some (fst (date e))}"
      by (auto simp: select_events_seats_eq [OF assms(1)] w)
  qed
next
  assume "\<not> truthy (query req ''date'') \<or> (\<exists>t. query req ''date'' = JStr t \<and> js_trim t = [])"
  then have "safe_filter (query req ''date'') = Inr None" by (rule safe_filter_blank)
  then show "get_events en db flt req
       = get_events en db flt (req\<lparr>query := (query req)(''date'' := JUndefined)\<rparr>)"
    by (rule get_events_drop_date)
qed

lemma sample_seats:
  "with_seats sample_store ev1 = ev1\<lparr>available_seats := - 1\<rparr>"
  "with_seats sample_store ev2 = ev2"
  "with_seats sample_store ev3 = ev3\<lparr>available_seats := 4\<rparr>"
  by (simp_all add: with_seats_def booking_count_def sample_store_def ev1_def ev2_def ev3_def)

theorem get_events_date_filter_witness:
  "events_keyed sample_store \<and> no_faults 0 = None
   \<and> safe_filter (query (dated_request ''20148'') ''location'') = Inr None
   \<and> query (dated_request ''20148'') ''date'' = JStr ''20148'' \<and> js_trim ''20148'' \<noteq> []
   \<and> date ev1 = (20148, 36000) \<and> date ev2 = (20148, 3600) \<and> date ev3 = (20100, 0)
   \<and> (\<exists>rows. get_events sample_env sample_store no_faults (dated_request ''20148'')
               = json 200 (RowsP rows)
         \<and> set rows = {ev1\<lparr>available_seats := - 1\<rparr>, ev2})
   \<and> query (dated_request ''  '') ''date'' = JStr ''  '' \<and> js_trim ''  '' = []
   \<and> get_events sample_env sample_store no_faults (dated_request ''  '')
     = get_events sample_env sample_store no_faults sample_request
   \<and> js_trim [CHR 0xC2, CHR 0xA0] = []
   \<and> get_events sample_env sample_store no_faults (dated_request [CHR 0xC2, CHR 0xA0])
     = get_events sample_env sample_store no_faults sample_request"
proof -
  have n2: "safe_filter (query (dated_request [CHR 0xC2, CHR 0xA0]) ''location'') = Inr None"
    by (simp add: dated_request_def sample_request_def)
  have nt: "js_trim [CHR 0xC2, CHR 0xA0] = []"
    by (simp add: js_trim_def js_white_space_def ws_head_def)
  have nq: "(dated_request [CHR 0xC2, CHR 0xA0])
              \<lparr>query := (query (dated_request [CHR 0xC2, CHR 0xA0]))(''date'' := JUndefined)\<rparr>
           = sample_request"
    by (simp add: dated_request_def sample_request_def fun_eq_iff)
  have nbsp: "get_events sample_env sample_store no_faults (dated_request [CHR 0xC2, CHR 0xA0])
     = get_events sample_env sample_store no_faults sample_request"
    using get_events_date_filter
            [where db = sample_store and flt = no_faults and en = sample_env and loc = None
               and req = "dated_request [CHR 0xC2, CHR 0xA0]" and s = "''x''",
             OF sample_keyed _ n2]
    by (simp add: nq nt no_faults_def) (simp add: dated_request_def nt)
  have b2: "safe_filter (query (dated_request ''  '') ''location'') = Inr None"
    by (simp add: dated_request_def sample_request_def)
  have t: "js_trim ''  '' = []" by (simp add: js_trim_def js_white_space_def ws_head_def)
  have q: "(dated_request ''  '')\<lparr>query := (query (dated_request ''  ''))(''date'' := JUndefined)\<rparr>
           = sample_request"
    by (simp add: dated_request_def sample_request_def fun_eq_iff)
  have h1: "no_faults 0 = None" by (simp add: no_faults_def)
  have blank: "get_events sample_env sample_store no_faults (dated_request ''  '')
     = get_events sample_env sample_store no_faults sample_request"
    using get_events_date_filter
            [where db = sample_store and flt = no_faults and en = sample_env and loc = None
               and req = "dated_request ''  ''" and s = "''  ''",
             OF sample_keyed h1 b2]
    by (simp add: q t) (simp add: dated_request_def t)
  have b3: "query (dated_request ''  '') ''date'' = JStr ''  ''"
    by (simp add: dated_request_def)
  have h2: "safe_filter (query (dated_request ''20148'') ''location'') = Inr None"
    by (simp add: dated_request_def sample_request_def)
  have h3: "query (dated_request ''20148'') ''date'' = JStr ''20148'' \<and> js_trim ''20148'' \<noteq> []"
    by (simp add: dated_request_def js_trim_def js_white_space_def ws_head_def)
  have d: "date ev1 = (20148, 36000) \<and> date ev2 = (20148, 3600) \<and> date ev3 = (20100, 0)"
    by (simp add: ev1_def ev2_def ev3_def)
  have k: "day_of sample_env ''20148'' = Some 20148"
    by (simp add: sample_env_def dec_nat_def digit_of_def)
  have s: "{e \<in> set (events sample_store).
             where_clause sample_env None None e
             \<and> day_of sample_env ''20148'' = Some (fst (date e))} = {ev1, ev2}"
    by (auto simp: k sample_store_def where_clause_def d)
  show ?thesis
    using get_events_date_filter
            [where db = sample_store and flt = no_faults and en = sample_env and loc = None
               and req = "dated_request ''20148''" and s = "''20148''",
             OF sample_keyed h1 h2]
          sample_keyed h1 h2 h3 d blank b3 t nbsp nt
    by (simp add: s sample_seats)
qed

section \<open>The status of a booking\<close>

text \<open>
  Blanking the status of every booking commutes with the join, the grouping and the
  count of the listing, and with the join and the projection of the roster.
\<close>

lemma join_side_blank:
  "join_side (map (\<lambda>b. b\<lparr>status := None\<rparr>) bs) e
   = map (map_option (\<lambda>b. b\<lparr>status := None\<rparr>)) (join_side bs e)"
proof -
  have "filter (\<lambda>b. event_id e = b_event_id b) (map (\<lambda>b. b\<lparr>status := None\<rparr>) bs)
        = map (\<lambda>b. b\<lparr>status := None\<rparr>) (filter (\<lambda>b. event_id e = b_event_id b) bs)"
    by (simp add: filter_map comp_def)
  then show ?thesis
    by (simp add: join_side_def split: list.splits)
qed

lemma left_join_blank:
  "left_join es (map (\<lambda>b. b\<lparr>status := None\<rparr>) bs)
   = map (apsnd (map_option (\<lambda>b. b\<lparr>status := None\<rparr>))) (left_join es bs)"
  by (induction es) (simp_all add: left_join_def join_rows_side join_side_blank)

lemma group_apsnd:
  "group_by_event_id (map (apsnd f) rs) = map (apsnd (map f)) (group_by_event_id rs)"
proof (induction rs rule: group_by_event_id.induct)
  case 1
  then show ?case by simp
next
  case (2 e b rs)
  then show ?case by (simp add: filter_map comp_def)
qed

lemma count_blank:
  "count_booking_id (map (map_option f) xs) = count_booking_id xs"
  by (simp add: count_booking_id_def filter_map comp_def)

lemma seats_row_blank: "seats_row (apsnd (map (map_option f)) g) = seats_row g"
  by (cases g) (simp add: seats_row_def count_blank)

lemma select_events_seats_blank:
  "select_events_seats en loc dt (blank_status db) = select_events_seats en loc dt db"
proof -
  have f: "filter (\<lambda>r. W (fst r)) (map (apsnd h) rs) = map (apsnd h) (filter (\<lambda>r. W (fst r)) rs)"
    for W :: "event \<Rightarrow> bool" and h :: "booking option \<Rightarrow> booking option" and rs
    by (simp add: filter_map comp_def)
  show ?thesis
    by (simp add: select_events_seats_def blank_status_def left_join_blank f group_apsnd
        comp_def seats_row_blank)
qed

lemma get_events_blank:
  "get_events en (blank_status db) flt req = get_events en db flt req"
  by (simp add: get_events_def select_events_seats_blank split: sum.splits)

lemma inner_join_blank:
  "inner_join (map (\<lambda>b. b\<lparr>status := None\<rparr>) bs) us
   = map (apfst (\<lambda>b. b\<lparr>status := None\<rparr>)) (inner_join bs us)"
  by (induction bs) (simp_all add: inner_join_def)

lemma select_attendees_blank:
  "select_attendees en eventId (blank_status db)
   = map (\<lambda>a. a\<lparr>a_status := None\<rparr>) (select_attendees en eventId db)"
  by (simp add: select_attendees_def blank_status_def inner_join_blank filter_map comp_def
      attendee_row_def)

lemma get_attendees_blank:
  "forget_status (get_attendees en (blank_status db) flt eventId u)
   = forget_status (get_attendees en db flt eventId u)"
proof -
  have o: "select_owned_event en eventId (id_user_id u) (blank_status db)
           = select_owned_event en eventId (id_user_id u) db"
    by (simp add: select_owned_event_def blank_status_def)
  show ?thesis
    by (simp add: get_attendees_def o select_attendees_blank db_query_def forget_status_def
        json_def comp_def split: option.splits list.splits)
qed

section \<open>Routing and store failures\<close>

text \<open>Where the router sends a GET for the path \<^verbatim>\<open>/my-events\<close>.\<close>

lemma dispatch_my_events:
  "req_method req = GET \<Longrightarrow> req_path req = [''my-events''] \<Longrightarrow>
   router en db flt req = Some (get_event en db flt ''my-events'', db)"
  by (simp add: router_def routes_def params_id_def)

lemma get_event_payload: "payload (get_event en db flt eventId) \<noteq> RowsP rows"
  by (simp add: get_event_def db_query_def json_def split: option.splits list.splits)

text \<open>
  Claim C2. GET /my-events does not reach its handler: the route \<^verbatim>\<open>/:id\<close> is
  registered before \<^verbatim>\<open>/my-events\<close> and matches the path with \<^verbatim>\<open>id = "my-events"\<close>, so
  the request is answered by the single-event handler, without authentication, and the
  answer is never a list of events. (The handler itself, were it reached, lists the
  caller's events by date descending: \<open>get_my_events_handler\<close> below.)
\<close>

theorem my_events_route_is_shadowed:
  "router en db flt (req\<lparr>req_method := GET, req_path := [''my-events'']\<rparr>)
     = Some (get_event en db flt ''my-events'', db)
   \<and> router en db flt (req\<lparr>req_method := GET, req_path := [''my-events'']\<rparr>)
     \<noteq> Some (json c (RowsP rows), db')"
proof -
  have r: "router en db flt (req\<lparr>req_method := GET, req_path := [''my-events'']\<rparr>)
     = Some (get_event en db flt ''my-events'', db)"
    by (rule dispatch_my_events) simp_all
  have "get_event en db flt ''my-events'' \<noteq> json c (RowsP rows)"
    using get_event_payload [of en db flt "''my-events''" rows] by (auto simp: json_def)
  with r show ?thesis by simp
qed

lemma my_events_sample:
  "router sample_env sample_store no_faults
     (sample_request\<lparr>req_path := [''my-events''], authorization := Some ''Bearer tok7''\<rparr>)
   = Some (json 404 (ErrorP ''Event not found''), sample_store)
   \<and> get_my_events sample_store no_faults \<lparr>id_user_id = 7, id_role = ''organizer''\<rparr>
     = json 200 (RowsP [ev1, ev3])"
proof -
  have k: "key_of sample_env ''my-events'' = None"
    by (simp add: sample_env_def dec_nat_def digit_of_def)
  have 1: "router sample_env sample_store no_faults
     (sample_request\<lparr>req_path := [''my-events''], authorization := Some ''Bearer tok7''\<rparr>)
   = Some (json 404 (ErrorP ''Event not found''), sample_store)"
    by (simp add: dispatch_my_events sample_request_def get_event_def db_query_def no_faults_def
        select_event_def k)
  have 2: "get_my_events sample_store no_faults \<lparr>id_user_id = 7, id_role = ''organizer''\<rparr>
     = json 200 (RowsP [ev1, ev3])"
    by (simp add: get_my_events_def db_query_def no_faults_def select_my_events_def
        sample_store_def ev1_def ev2_def ev3_def)
  from 1 2 show ?thesis by simp
qed

text \<open>What the handler of \<^verbatim>\<open>/my-events\<close> answers when it is called.\<close>

lemma get_my_events_handler:
  assumes "flt 0 = None"
  shows "\<exists>rows. get_my_events db flt u = json 200 (RowsP rows)
     \<and> mset rows = mset (filter (\<lambda>e. organizer_id e = id_user_id u) (events db))
     \<and> sorted (rev (map date rows))"
proof -
  let ?rows = "select_my_events (id_user_id u) db"
  have "get_my_events db flt u = json 200 (RowsP ?rows)"
    using assms by (simp add: get_my_events_def db_query_def)
  moreover have "mset ?rows = mset (filter (\<lambda>e. organizer_id e = id_user_id u) (events db))"
    by (simp add: select_my_events_def)
  moreover have "sorted (rev (map date ?rows))"
    by (simp add: select_my_events_def rev_map [symmetric])
  ultimately show ?thesis by blast
qed

text \<open>
  Claim C9. A failure of the store is answered with status 500 by every handler, but
  GET /:id, GET /my-events and DELETE /:id put the message of the store's error in the
  response as it is; the other three handlers answer with a fixed text
  (\<open>store_error_generic\<close> below).
\<close>

theorem store_error_message_is_forwarded:
  "get_event en db (\<lambda>k. Some msg) eventId = json 500 (ErrorP msg)
   \<and> get_my_events db (\<lambda>k. Some msg) u = json 500 (ErrorP msg)
   \<and> delete_event en db (\<lambda>k. Some msg) eventId u = (json 500 (ErrorP msg), db)"
  by (simp add: get_event_def get_my_events_def delete_event_def db_query_def)

text \<open>The three handlers that answer a failure of the store with a fixed text.\<close>

lemma store_error_generic:
  assumes "flt 0 = Some msg"
  shows "get_events en db flt req = json 500 (ErrorP ''Failed to fetch events'')"
    and "get_attendees en db flt eventId u = json 500 (ErrorP ''Server error fetching attendees'')"
    and "truthy (body req ''title'') \<Longrightarrow> truthy (body req ''date'') \<Longrightarrow>
         create_event en db flt req u = (json 500 (ErrorP ''Server error creating event''), db)"
  using assms
  by (simp_all add: get_events_def get_attendees_def create_event_def db_query_def Let_def
      split: sum.splits)

lemma store_error_second_statement:
  "flt 1 = Some msg \<Longrightarrow> code (get_attendees en db flt eventId u) \<noteq> 200"
  by (simp add: get_attendees_def db_query_def json_def split: option.splits list.splits)

section \<open>Authorization, validation and deletion\<close>

lemma dispatch_attendees:
  "req_method req = GET \<Longrightarrow> req_path req = [eventId, ''attendees''] \<Longrightarrow> eventId \<noteq> [] \<Longrightarrow>
   router en db flt req
   = Some (with_auth en db req (\<lambda>u. (get_attendees en db flt eventId u, db)))"
  by (simp add: router_def routes_def params_id_def)

lemma dispatch_create:
  "req_method req = POST \<Longrightarrow> req_path req = [] \<Longrightarrow>
   router en db flt req = Some (with_auth en db req (\<lambda>u. create_event en db flt req u))"
  by (simp add: router_def routes_def)

lemma dispatch_delete:
  "req_method req = DELETE \<Longrightarrow> req_path req = [eventId] \<Longrightarrow> eventId \<noteq> [] \<Longrightarrow>
   router en db flt req
   = Some (with_auth en db req (\<lambda>u. delete_event en db flt eventId u))"
  by (simp add: router_def routes_def params_id_def)

lemma not_owned_forbidden:
  assumes "\<forall>e\<in>set (events db). key_of en eventId = Some (event_id e) \<longrightarrow> organizer_id e \<noteq> id_user_id u"
  shows "get_attendees en db flt eventId u =
     (case flt 0 of
        Some msg \<Rightarrow> json 500 (ErrorP ''Server error fetching attendees'')
      | None \<Rightarrow> json 403 (ErrorP ''Unauthorized or Event not found''))"
proof -
  have "select_owned_event en eventId (id_user_id u) db = []"
    using assms by (auto simp: select_owned_event_def filter_empty_conv)
  then show ?thesis
    by (simp add: get_attendees_def db_query_def split: option.splits)
qed

text \<open>
  Claim C3. For an authenticated caller and an event id, GET /:id/attendees gives the
  same response on a store where no event has that id as on a store where the event
  exists and is organized by someone else; when the statement does not fail that
  response is 403 with one fixed message.
\<close>

theorem attendees_forbidden_indistinguishable:
  assumes "req_method req = GET" and "req_path req = [eventId, ''attendees'']"
    and "eventId \<noteq> []" and "authenticateToken en req = Inr u"
    and "\<forall>e\<in>set (events db1). key_of en eventId \<noteq> Some (event_id e)"
    and "\<forall>e\<in>set (events db2).
           key_of en eventId = Some (event_id e) \<longrightarrow> organizer_id e \<noteq> id_user_id u"
  shows "map_option fst (router en db1 flt req) = map_option fst (router en db2 flt req)
     \<and> (flt 0 = None \<longrightarrow>
          map_option fst (router en db2 flt req)
          = Some (json 403 (ErrorP ''Unauthorized or Event not found'')))"
proof -
  have 1: "\<forall>e\<in>set (events db1).
             key_of en eventId = Some (event_id e) \<longrightarrow> organizer_id e \<noteq> id_user_id u"
    using assms(5) by simp
  show ?thesis
    by (simp add: dispatch_attendees [OF assms(1,2,3)] with_auth_def assms(4)
        not_owned_forbidden [OF 1] not_owned_forbidden [OF assms(6)])
qed

theorem attendees_forbidden_indistinguishable_witness:
  "events smaller_store = [ev1, ev3] \<and> events sample_store = [ev1, ev2, ev3]
   \<and> key_of sample_env ''2'' = Some (event_id ev2) \<and> organizer_id ev2 = 8
   \<and> authenticateToken sample_env (sample_call GET [''2'', ''attendees''] ''tok7'')
       = Inr \<lparr>id_user_id = 7, id_role = ''organizer''\<rparr>
   \<and> map_option fst (router sample_env smaller_store no_faults
                        (sample_call GET [''2'', ''attendees''] ''tok7''))
     = Some (json 403 (ErrorP ''Unauthorized or Event not found''))
   \<and> map_option fst (router sample_env sample_store no_faults
                        (sample_call GET [''2'', ''attendees''] ''tok7''))
     = Some (json 403 (ErrorP ''Unauthorized or Event not found''))"
  using attendees_forbidden_indistinguishable
     [where req = "sample_call GET [''2'', ''attendees''] ''tok7''" and eventId = "''2''"
        and en = sample_env and u = "\<lparr>id_user_id = 7, id_role = ''organizer''\<rparr>"
        and ?db1.0 = smaller_store and ?db2.0 = sample_store and flt = no_faults]
  by (simp add: sample_call_sel sample_auth sample_events sample_keys no_faults_def)

text \<open>
  Claim C4. An authenticated POST / whose \<^verbatim>\<open>title\<close> or \<^verbatim>\<open>date\<close> is missing (or
  otherwise falsy) is answered with 400, and the store is unchanged.
\<close>

theorem create_requires_title_and_date:
  assumes "req_method req = POST" and "req_path req = []"
    and "authenticateToken en req = Inr u"
    and "\<not> truthy (body req ''title'') \<or> \<not> truthy (body req ''date'')"
  shows "router en db flt req = Some (json 400 (ErrorP ''Title and Date are required''), db)"
  using assms(4)
  by (auto simp: dispatch_create [OF assms(1,2)] with_auth_def assms(3) create_event_def Let_def)

theorem create_requires_title_and_date_witness:
  "body (sample_post (\<lambda>k. if k = ''date'' then JStr ''20200'' else JUndefined)) ''title''
     = JUndefined
   \<and> router sample_env sample_store no_faults
        (sample_post (\<lambda>k. if k = ''date'' then JStr ''20200'' else JUndefined))
     = Some (json 400 (ErrorP ''Title and Date are required''), sample_store)"
  using create_requires_title_and_date
     [where req = "sample_post (\<lambda>k. if k = ''date'' then JStr ''20200'' else JUndefined)"
        and en = sample_env and u = "\<lparr>id_user_id = 7, id_role = ''organizer''\<rparr>"
        and db = sample_store and flt = no_faults]
  by (simp add: sample_call_sel sample_auth)

lemma delete_none:
  assumes "flt 0 = None"
    and "\<forall>e\<in>set (events db). \<not> delete_where en eventId u e"
  shows "delete_event en db flt eventId u
         = (json 404 (ErrorP ''Event not found or unauthorized''), db)"
proof -
  have "filter (delete_where en eventId u) (events db) = []"
    using assms(2) by (simp add: filter_empty_conv)
  moreover have "filter (\<lambda>e. \<not> delete_where en eventId u e) (events db) = events db"
    using assms(2) by (simp add: filter_id_conv)
  ultimately show ?thesis
    using assms(1) by (simp add: delete_event_def db_query_def)
qed

lemma delete_one:
  assumes "events_keyed db" and "flt 0 = None" and "e \<in> set (events db)"
    and "delete_where en eventId u e"
  shows "delete_event en db flt eventId u
         = (json 200 (MessageP deleted_message),
            db\<lparr>events := filter (\<lambda>x. x \<noteq> e) (events db)\<rparr>)"
proof -
  have k: "key_of en eventId = Some (event_id e)"
    using assms(4) by (simp add: delete_where_def split: if_splits)
  have same: "delete_where en eventId u x = (x = e)" if "x \<in> set (events db)" for x
  proof
    assume "delete_where en eventId u x"
    then have "event_id x = event_id e"
      using k by (simp add: delete_where_def split: if_splits)
    with that assms(1,3) show "x = e"
      by (auto simp: events_keyed_def distinct_map inj_on_def)
  next
    assume "x = e"
    with assms(4) show "delete_where en eventId u x" by simp
  qed
  have f1: "filter (delete_where en eventId u) (events db) = filter (\<lambda>x. x = e) (events db)"
    by (rule filter_cong) (simp_all add: same)
  have f2: "filter (\<lambda>x. \<not> delete_where en eventId u x) (events db)
            = filter (\<lambda>x. x \<noteq> e) (events db)"
    by (rule filter_cong) (simp_all add: same)
  have ne: "filter (\<lambda>x. x = e) (events db) \<noteq> []"
    using assms(3) by (simp add: filter_empty_conv)
  show ?thesis
    using assms(2) ne by (simp add: delete_event_def db_query_def f1 f2)
qed

text \<open>
  Claim C5. On a store whose \<^verbatim>\<open>event_id\<close> is a key and when the statement does not
  fail, DELETE /:id by the organizer of the event, or by a caller with the role
  \<^verbatim>\<open>admin\<close> whoever organizes it, is answered with 200 and removes that row and no
  other; when no event has the id, or the caller is neither its organizer nor an admin,
  the answer is 404 with one fixed message and the store is unchanged.
\<close>

theorem delete_event_outcomes:
  assumes "req_method req = DELETE" and "req_path req = [eventId]" and "eventId \<noteq> []"
    and "authenticateToken en req = Inr u"
    and "events_keyed db" and "flt 0 = None"
  shows "(\<forall>e\<in>set (events db).
            key_of en eventId = Some (event_id e)
            \<and> (organizer_id e = id_user_id u \<or> id_role u = ''admin'') \<longrightarrow>
            router en db flt req
            = Some (json 200 (MessageP deleted_message),
                    db\<lparr>events := filter (\<lambda>x. x \<noteq> e) (events db)\<rparr>))
     \<and> ((\<forall>e\<in>set (events db).
            key_of en eventId = Some (event_id e) \<longrightarrow>
            organizer_id e \<noteq> id_user_id u \<and> id_role u \<noteq> ''admin'') \<longrightarrow>
          router en db flt req
          = Some (json 404 (ErrorP ''Event not found or unauthorized''), db))"
proof (intro conjI ballI impI)
  fix e
  assume "e \<in> set (events db)"
    and "key_of en eventId = Some (event_id e)
         \<and> (organizer_id e = id_user_id u \<or> id_role u = ''admin'')"
  then have "delete_where en eventId u e" "e \<in> set (events db)"
    by (auto simp: delete_where_def)
  then show "router en db flt req
            = Some (json 200 (MessageP deleted_message),
                    db\<lparr>events := filter (\<lambda>x. x \<noteq> e) (events db)\<rparr>)"
    by (simp add: dispatch_delete [OF assms(1,2,3)] with_auth_def assms(4)
        delete_one [where flt = flt and db = db, OF assms(5,6)])
next
  assume "\<forall>e\<in>set (events db).
            key_of en eventId = Some (event_id e) \<longrightarrow>
            organizer_id e \<noteq> id_user_id u \<and> id_role u \<noteq> ''admin''"
  then have "\<forall>e\<in>set (events db). \<not> delete_where en eventId u e"
    by (auto simp: delete_where_def)
  then show "router en db flt req
          = Some (json 404 (ErrorP ''Event not found or unauthorized''), db)"
    by (simp add: dispatch_delete [OF assms(1,2,3)] with_auth_def assms(4)
        delete_none [where flt = flt, OF assms(6)])
qed

theorem delete_event_outcomes_witness:
  "events sample_store = [ev1, ev2, ev3] \<and> organizer_id ev1 = 7 \<and> organizer_id ev2 = 8
   \<and> router sample_env sample_store no_faults (sample_call DELETE [''1''] ''tok7'')
     = Some (json 200 (MessageP deleted_message), sample_store\<lparr>events := [ev2, ev3]\<rparr>)
   \<and> router sample_env sample_store no_faults (sample_call DELETE [''2''] ''tok1'')
     = Some (json 200 (MessageP deleted_message), sample_store\<lparr>events := [ev1, ev3]\<rparr>)
   \<and> router sample_env sample_store no_faults (sample_call DELETE [''2''] ''tok7'')
     = Some (json 404 (ErrorP ''Event not found or unauthorized''), sample_store)
   \<and> router sample_env sample_store no_faults (sample_call DELETE [''9''] ''tok1'')
     = Some (json 404 (ErrorP ''Event not found or unauthorized''), sample_store)"
  using delete_event_outcomes
     [where req = "sample_call DELETE [''1''] ''tok7''" and eventId = "''1''"
        and en = sample_env and u = "\<lparr>id_user_id = 7, id_role = ''organizer''\<rparr>"
        and db = sample_store and flt = no_faults]
    delete_event_outcomes
     [where req = "sample_call DELETE [''2''] ''tok1''" and eventId = "''2''"
        and en = sample_env and u = "\<lparr>id_user_id = 1, id_role = ''admin''\<rparr>"
        and db = sample_store and flt = no_faults]
    delete_event_outcomes
     [where req = "sample_call DELETE [''2''] ''tok7''" and eventId = "''2''"
        and en = sample_env and u = "\<lparr>id_user_id = 7, id_role = ''organizer''\<rparr>"
        and db = sample_store and flt = no_faults]
    delete_event_outcomes
     [where req = "sample_call DELETE [''9''] ''tok1''" and eventId = "''9''"
        and en = sample_env and u = "\<lparr>id_user_id = 1, id_role = ''admin''\<rparr>"
        and db = sample_store and flt = no_faults]
  by (simp add: sample_call_sel sample_auth sample_events sample_keys no_faults_def sample_keyed)

section \<open>The roster and the defaults of a new event\<close>

lemma keyed_filter:
  assumes "events_keyed db" and "e \<in> set (events db)" and "P e"
    and "\<And>x. P x \<Longrightarrow> event_id x = event_id e"
  shows "filter P (events db) = [e]"
proof -
  have d: "distinct (map event_id (events db))"
    using assms(1) by (simp add: events_keyed_def)
  have "P x = (event_id x = event_id e)" if "x \<in> set (events db)" for x
  proof
    assume "P x" then show "event_id x = event_id e" by (rule assms(4))
  next
    assume "event_id x = event_id e"
    with that assms(2) d have "x = e" by (auto simp: distinct_map inj_on_def)
    with assms(3) show "P x" by simp
  qed
  then have "filter P (events db) = filter (\<lambda>x. event_id x = event_id e) (events db)"
    by (intro filter_cong) simp_all
  also have "\<dots> = [e]" by (rule filter_key_single [OF d assms(2)])
  finally show ?thesis .
qed

lemma one_user:
  assumes "distinct (map user_id us)" and "k \<in> user_id ` set us"
  shows "\<exists>w\<in>set us. user_id w = k \<and> filter (\<lambda>u. k = user_id u) us = [w]"
proof -
  from assms(2) obtain w where w: "w \<in> set us" "user_id w = k" by auto
  have "filter (\<lambda>u. k = user_id u) us = filter (\<lambda>u. user_id u = user_id w) us"
    by (rule filter_cong) (use w(2) in auto)
  also have "\<dots> = [w]"
    by (rule filter_key_single [OF assms(1) w(1)])
  finally have "filter (\<lambda>u. k = user_id u) us = [w]" .
  with w show ?thesis by blast
qed

lemma roster_rows:
  assumes "distinct (map user_id us)"
  shows "list_all (\<lambda>b. b_user_id b \<in> user_id ` set us) bs \<Longrightarrow>
     list_all2 (roster_entry us)
       (map attendee_row (filter (\<lambda>r. K (fst r)) (inner_join bs us))) (filter K bs)"
proof (induction bs)
  case Nil
  then show ?case by (simp add: inner_join_def)
next
  case (Cons b bs)
  then have "b_user_id b \<in> user_id ` set us" by simp
  from one_user [OF assms this] obtain w
    where w: "w \<in> set us" "user_id w = b_user_id b"
      "filter (\<lambda>u. b_user_id b = user_id u) us = [w]" by auto
  have ij: "inner_join (b # bs) us = (b, w) # inner_join bs us"
    by (simp add: inner_join_def w(3))
  have r: "roster_entry us (attendee_row (b, w)) b"
    using w(1,2) by (auto simp: roster_entry_def attendee_row_def)
  from Cons have ih: "list_all2 (roster_entry us)
       (map attendee_row (filter (\<lambda>r. K (fst r)) (inner_join bs us))) (filter K bs)"
    by simp
  show ?case by (simp add: ij r ih)
qed

lemma roster_of_owned:
  assumes "events_keyed db" and "users_keyed db" and "bookings_have_users db"
    and "flt 0 = None" and "flt 1 = None"
    and "e \<in> set (events db)" and "key_of en eventId = Some (event_id e)"
    and "organizer_id e = id_user_id u"
  shows "get_attendees en db flt eventId u
           = json 200 (RosterP e (select_attendees en eventId db)
                         (int (length (select_attendees en eventId db)) * price e))"
    and "list_all2 (roster_entry (users db)) (select_attendees en eventId db)
          (filter (\<lambda>b. b_event_id b = event_id e) (bookings db))"
proof -
  let ?as = "select_attendees en eventId db"
  have o: "select_owned_event en eventId (id_user_id u) db = [e]"
    unfolding select_owned_event_def
    by (rule keyed_filter [OF assms(1,6)]) (use assms(7,8) in auto)
  have K: "(\<lambda>b. key_of en eventId = Some (b_event_id b)) = (\<lambda>b. b_event_id b = event_id e)"
    using assms(7) by auto
  have "list_all2 (roster_entry (users db)) ?as
          (filter (\<lambda>b. key_of en eventId = Some (b_event_id b)) (bookings db))"
    unfolding select_attendees_def
    using assms(2,3) by (intro roster_rows) (simp_all add: users_keyed_def bookings_have_users_def)
  then show "list_all2 (roster_entry (users db)) ?as
          (filter (\<lambda>b. b_event_id b = event_id e) (bookings db))"
    by (simp only: K)
  show "get_attendees en db flt eventId u
               = json 200 (RosterP e ?as (int (length ?as) * price e))"
    using assms(4,5) by (simp add: get_attendees_def db_query_def o)
qed

text \<open>
  Claim C8. On a store that keeps the keys and the reference from bookings to users,
  and when the statements do not fail, GET /:id/attendees for an event that the caller
  organizes answers 200 with the event, one entry for each booking of the event (in
  the order of the bookings: the booking's date and status, the name and email of its
  user) and \<^verbatim>\<open>total_revenue\<close> equal to the number of entries times the event's price.
\<close>

theorem get_attendees_roster:
  assumes "events_keyed db" and "users_keyed db" and "bookings_have_users db"
    and "flt 0 = None" and "flt 1 = None"
    and "e \<in> set (events db)" and "key_of en eventId = Some (event_id e)"
    and "organizer_id e = id_user_id u"
  shows "\<exists>as. get_attendees en db flt eventId u
               = json 200 (RosterP e as (int (length as) * price e))
     \<and> list_all2 (roster_entry (users db)) as
          (filter (\<lambda>b. b_event_id b = event_id e) (bookings db))"
proof -
  note r = roster_of_owned [where db = db and flt = flt, OF assms]
  from r show ?thesis by blast
qed

theorem get_attendees_roster_witness:
  "ev1 \<in> set (events sample_store) \<and> key_of sample_env ''1'' = Some (event_id ev1)
   \<and> organizer_id ev1 = 7 \<and> price ev1 = 20
   \<and> (\<exists>as. get_attendees sample_env sample_store no_faults ''1''
                \<lparr>id_user_id = 7, id_role = ''organizer''\<rparr>
              = json 200 (RosterP ev1 as 60)
         \<and> length as = 3)"
proof -
  have f: "filter (\<lambda>b. b_event_id b = event_id ev1) (bookings sample_store)
           = [\<lparr>booking_id = 1, b_event_id = 1, b_user_id = 8, booking_date = (20140, 10),
                status = Some ''confirmed''\<rparr>,
              \<lparr>booking_id = 2, b_event_id = 1, b_user_id = 9, booking_date = (20141, 20),
                status = Some ''cancelled''\<rparr>,
              \<lparr>booking_id = 4, b_event_id = 1, b_user_id = 7, booking_date = (20142, 40),
                status = Some ''confirmed''\<rparr>]"
    by (simp add: sample_store_def sample_events)
  have p: "price ev1 = 20" by (simp add: ev1_def)
  from get_attendees_roster
      [where db = sample_store and flt = no_faults and e = ev1 and en = sample_env
         and eventId = "''1''" and u = "\<lparr>id_user_id = 7, id_role = ''organizer''\<rparr>"]
  obtain as where as: "get_attendees sample_env sample_store no_faults ''1''
                \<lparr>id_user_id = 7, id_role = ''organizer''\<rparr>
              = json 200 (RosterP ev1 as (int (length as) * price ev1))"
     "list_all2 (roster_entry (users sample_store)) as
          (filter (\<lambda>b. b_event_id b = event_id ev1) (bookings sample_store))"
    by (auto simp: sample_keyed sample_integrity no_faults_def sample_events sample_keys)
  from as(2) have "length as = 3"
    by (simp add: f list_all2_lengthD)
  with as(1) show ?thesis
    by (auto simp: p sample_events sample_keys)
qed

text \<open>
  Claim C6. An authenticated POST / with \<^verbatim>\<open>title\<close> and \<^verbatim>\<open>date\<close>, whose values the
  store accepts, is answered with 201 and adds one row: its \<^verbatim>\<open>capacity\<close> is 100 when
  the request's capacity is absent or falsy, its \<^verbatim>\<open>mode\<close> is \<^verbatim>\<open>physical\<close> when the
  mode is absent or falsy, its \<^verbatim>\<open>price\<close> is 0 when the price is absent or falsy, and
  its stored \<^verbatim>\<open>available_seats\<close> equals its stored capacity.
\<close>

theorem create_event_defaults:
  assumes "req_method req = POST" and "req_path req = []"
    and "authenticateToken en req = Inr u"
    and "truthy (body req ''title'')" and "truthy (body req ''date'')"
    and "flt 0 = None"
    and "bind_text en (body req ''title'') = Some c_title"
    and "bind_text en (body req ''description'') = Some c_description"
    and "bind_ts en (body req ''date'') = Some c_date"
    and "bind_text en (body req ''location'') = Some c_location"
    and "bind_text en (body req ''meeting_link'') = Some c_meeting_link"
    and "truthy (body req ''price'') \<longrightarrow> bind_num en (body req ''price'') \<noteq> None"
    and "truthy (body req ''mode'') \<longrightarrow> bind_text en (body req ''mode'') \<noteq> None"
    and "truthy (body req ''capacity'') \<longrightarrow> bind_num en (body req ''capacity'') \<noteq> None"
  shows "\<exists>row. router en db flt req
           = Some (json 201 (CreatedP created_message (next_event_id db)),
                   db\<lparr>events := events db @ [row], next_event_id := next_event_id db + 1\<rparr>)
     \<and> event_id row = next_event_id db \<and> organizer_id row = id_user_id u
     \<and> (\<not> truthy (body req ''capacity'') \<longrightarrow> capacity row = 100)
     \<and> (\<not> truthy (body req ''mode'') \<longrightarrow> mode row = Some ''physical'')
     \<and> (\<not> truthy (body req ''price'') \<longrightarrow> price row = 0)
     \<and> available_seats row = capacity row"
proof -
  obtain c_price where p: "bind_num en (js_or (body req ''price'') (JNum 0)) = Some c_price"
    "\<not> truthy (body req ''price'') \<longrightarrow> c_price = 0"
    using assms(12) by (cases "truthy (body req ''price'')") (auto simp: js_or_def)
  obtain c_mode where m: "bind_text en (js_or (body req ''mode'') (JStr ''physical'')) = Some c_mode"
    "\<not> truthy (body req ''mode'') \<longrightarrow> c_mode = Some ''physical''"
    using assms(13) by (cases "truthy (body req ''mode'')") (auto simp: js_or_def)
  obtain c_capacity where c: "bind_num en (js_or (body req ''capacity'') (JNum 100)) = Some c_capacity"
    "\<not> truthy (body req ''capacity'') \<longrightarrow> c_capacity = 100"
    using assms(14) by (cases "truthy (body req ''capacity'')") (auto simp: js_or_def)
  let ?url = "case req_file req of
                None \<Rightarrow> ''https://via.placeholder.com/300''
              | Some filename \<Rightarrow> protocol req @ ''://'' @ host req @ ''/uploads/'' @ filename"
  let ?row = "\<lparr>event_id = next_event_id db, title = c_title, description = c_description,
                 date = c_date, location = c_location, price = c_price,
                 image_url = Some ?url, mode = c_mode, meeting_link = c_meeting_link,
                 capacity = c_capacity, organizer_id = id_user_id u,
                 available_seats = c_capacity\<rparr>"
  have "router en db flt req = Some (create_event en db flt req u)"
    by (simp add: dispatch_create [OF assms(1,2)] with_auth_def assms(3))
  also have "create_event en db flt req u
      = (json 201 (CreatedP created_message (next_event_id db)),
         db\<lparr>events := events db @ [?row], next_event_id := next_event_id db + 1\<rparr>)"
    by (simp add: create_event_def Let_def db_query_def insert_event_def assms(4-11) p(1) m(1) c(1))
  finally have r: "router en db flt req
      = Some (json 201 (CreatedP created_message (next_event_id db)),
         db\<lparr>events := events db @ [?row], next_event_id := next_event_id db + 1\<rparr>)" .
  show ?thesis
    by (rule exI [of _ ?row]) (simp add: r p(2) m(2) c(2))
qed

theorem create_event_defaults_witness:
  "new_body ''title'' = JStr ''Fair'' \<and> new_body ''date'' = JStr ''20200''
   \<and> new_body ''capacity'' = JStr '''' \<and> new_body ''mode'' = JUndefined
   \<and> new_body ''price'' = JUndefined
   \<and> (\<exists>row. router sample_env sample_store no_faults (sample_post new_body)
           = Some (json 201 (CreatedP created_message 4),
                   sample_store\<lparr>events := [ev1, ev2, ev3, row], next_event_id := 5\<rparr>)
        \<and> event_id row = 4 \<and> organizer_id row = 7 \<and> capacity row = 100
        \<and> mode row = Some ''physical'' \<and> price row = 0 \<and> available_seats row = 100)"
proof -
  have d: "ts_of sample_env ''20200'' = Some (20200, 0)"
    by (simp add: sample_env_def dec_nat_def digit_of_def)
  have n: "next_event_id sample_store = 4" by (simp add: sample_store_def)
  show ?thesis
    using create_event_defaults
      [where req = "sample_post new_body" and en = sample_env and db = sample_store
         and flt = no_faults and u = "\<lparr>id_user_id = 7, id_role = ''organizer''\<rparr>"
         and c_title = "Some ''Fair''" and c_description = None and c_date = "(20200, 0)"
         and c_location = None and c_meeting_link = None]
    by (auto simp: sample_call_sel sample_auth new_body_def d n no_faults_def sample_events)
qed

section \<open>Every booking counts, whatever its status\<close>

text \<open>
  Two stores that are equal once every booking status is blanked have the same events
  and users and, for each event, the same number of booking rows.
\<close>

lemma blank_status_sel:
  "events (blank_status db) = events db" "users (blank_status db) = users db"
  "booking_count (blank_status db) e = booking_count db e"
  "bookings_have_users (blank_status db) = bookings_have_users db"
  by (simp_all add: blank_status_def booking_count_def bookings_have_users_def filter_map
      comp_def list_all_iff)

lemma same_up_to_status:
  assumes "blank_status db' = blank_status db"
  shows "events db' = events db" and "users db' = users db"
    and "booking_count db' e = booking_count db e"
    and "bookings_have_users db' = bookings_have_users db"
proof -
  show "events db' = events db"
    using arg_cong [OF assms, of events] by (simp only: blank_status_sel)
  show "users db' = users db"
    using arg_cong [OF assms, of users] by (simp only: blank_status_sel)
  show "booking_count db' e = booking_count db e"
    using arg_cong [OF assms, of "\<lambda>d. booking_count d e"] by (simp only: blank_status_sel)
  show "bookings_have_users db' = bookings_have_users db"
    using arg_cong [OF assms, of bookings_have_users] by (simp only: blank_status_sel)
qed

text \<open>The listing and a roster of the sample store, computed from the statements.\<close>

lemma sample_roster:
  "get_attendees sample_env sample_store no_faults ''1''
     \<lparr>id_user_id = 7, id_role = ''organizer''\<rparr>
   = json 200 (RosterP ev1
       [\<lparr>a_name = Some ''Ben'', a_email = Some ''ben@example.org'',
          a_booking_date = (20140, 10), a_status = Some ''confirmed''\<rparr>,
        \<lparr>a_name = Some ''Chen'', a_email = Some ''chen@example.org'',
          a_booking_date = (20141, 20), a_status = Some ''cancelled''\<rparr>,
        \<lparr>a_name = Some ''Asha'', a_email = Some ''asha@example.org'',
          a_booking_date = (20142, 40), a_status = Some ''confirmed''\<rparr>] 60)"
proof -
  have o: "select_owned_event sample_env ''1'' 7 sample_store = [ev1]"
    by (simp add: select_owned_event_def sample_keys sample_events)
  have a: "select_attendees sample_env ''1'' sample_store
      = [\<lparr>a_name = Some ''Ben'', a_email = Some ''ben@example.org'',
          a_booking_date = (20140, 10), a_status = Some ''confirmed''\<rparr>,
        \<lparr>a_name = Some ''Chen'', a_email = Some ''chen@example.org'',
          a_booking_date = (20141, 20), a_status = Some ''cancelled''\<rparr>,
        \<lparr>a_name = Some ''Asha'', a_email = Some ''asha@example.org'',
          a_booking_date = (20142, 40), a_status = Some ''confirmed''\<rparr>]"
    by (simp add: select_attendees_def inner_join_def sample_store_def sample_keys
        attendee_row_def)
  show ?thesis
    by (simp add: get_attendees_def db_query_def no_faults_def o a) (simp add: ev1_def)
qed

lemma sample_listing:
  "get_events sample_env sample_store no_faults sample_request
   = json 200 (RowsP [ev3\<lparr>available_seats := 4\<rparr>, ev2, ev1\<lparr>available_seats := - 1\<rparr>])"
proof -
  have j: "left_join (events sample_store) (bookings sample_store)
      = [(ev1, Some \<lparr>booking_id = 1, b_event_id = 1, b_user_id = 8, booking_date = (20140, 10),
                status = Some ''confirmed''\<rparr>),
         (ev1, Some \<lparr>booking_id = 2, b_event_id = 1, b_user_id = 9, booking_date = (20141, 20),
                status = Some ''cancelled''\<rparr>),
         (ev1, Some \<lparr>booking_id = 4, b_event_id = 1, b_user_id = 7, booking_date = (20142, 40),
                status = Some ''confirmed''\<rparr>),
         (ev2, None),
         (ev3, Some \<lparr>booking_id = 3, b_event_id = 3, b_user_id = 9, booking_date = (20090, 30),
                status = Some ''confirmed''\<rparr>)]"
    by (simp add: left_join_def join_rows_def sample_store_def sample_events)
  have s: "select_events_seats sample_env None None sample_store
           = [ev3\<lparr>available_seats := 4\<rparr>, ev2, ev1\<lparr>available_seats := - 1\<rparr>]"
    by (simp only: select_events_seats_def j)
       (simp add: where_clause_def seats_row_def count_booking_id_def ev1_def ev2_def ev3_def)
  show ?thesis
    by (simp add: get_events_def sample_request_def db_query_def no_faults_def s)
qed

text \<open>
  Claim C10. Let two stores differ only in the \<^verbatim>\<open>status\<close> of their booking rows.
  GET /events gives the same answer on both, and GET /:id/attendees gives the same
  event, the same attendees (name, email and booking date, in the same order) and the
  same \<^verbatim>\<open>total_revenue\<close>: only the reported status of an entry differs. Moreover
  both statements count every booking row that references the event: on either store
  \<^verbatim>\<open>available_seats\<close> is the capacity minus the number of all booking rows of the
  event, the roster has one entry for each of these rows, and \<^verbatim>\<open>total_revenue\<close> is
  their number times the price. A cancelled booking reduces the seats and adds to the
  revenue like any other.
\<close>

theorem status_is_ignored:
  assumes "blank_status db' = blank_status db"
  shows "get_events en db' flt req = get_events en db flt req
     \<and> forget_status (get_attendees en db' flt eventId u)
       = forget_status (get_attendees en db flt eventId u)
     \<and> (events_keyed db \<and> flt 0 = None
          \<and> safe_filter (query req ''location'') = Inr loc
          \<and> safe_filter (query req ''date'') = Inr dt
          \<and> e \<in> set (events db) \<and> where_clause en loc dt e \<longrightarrow>
          (\<exists>rows. get_events en db' flt req = json 200 (RowsP rows)
             \<and> filter (\<lambda>r. event_id r = event_id e) rows
               = [e\<lparr>available_seats := capacity e - int (booking_count db e)\<rparr>]))
     \<and> (events_keyed db \<and> users_keyed db \<and> bookings_have_users db
          \<and> flt 0 = None \<and> flt 1 = None
          \<and> e \<in> set (events db) \<and> key_of en eventId = Some (event_id e)
          \<and> organizer_id e = id_user_id u \<longrightarrow>
          (\<exists>as. get_attendees en db' flt eventId u
                  = json 200 (RosterP e as (int (booking_count db e) * price e))
             \<and> length as = booking_count db e))"
proof (intro conjI impI)
  have "get_events en db' flt req = get_events en (blank_status db') flt req"
    by (simp only: get_events_blank)
  also have "\<dots> = get_events en db flt req"
    by (simp only: assms get_events_blank)
  finally show "get_events en db' flt req = get_events en db flt req" .
  have "forget_status (get_attendees en db' flt eventId u)
        = forget_status (get_attendees en (blank_status db') flt eventId u)"
    by (simp only: get_attendees_blank)
  also have "\<dots> = forget_status (get_attendees en db flt eventId u)"
    by (simp only: assms get_attendees_blank)
  finally show "forget_status (get_attendees en db' flt eventId u)
         = forget_status (get_attendees en db flt eventId u)" .
next
  assume a: "events_keyed db \<and> flt 0 = None
          \<and> safe_filter (query req ''location'') = Inr loc
          \<and> safe_filter (query req ''date'') = Inr dt
          \<and> e \<in> set (events db) \<and> where_clause en loc dt e"
  have k: "events_keyed db'" and m: "e \<in> set (events db')"
    using a by (simp_all add: events_keyed_def same_up_to_status(1) [OF assms])
  have w: "where_clause en loc dt e" using a by simp
  have g: "get_events en db' flt req = json 200 (RowsP (select_events_seats en loc dt db'))"
    using a by (simp add: get_events_ok)
  have r: "filter (\<lambda>r. event_id r = event_id e) (select_events_seats en loc dt db')
           = [e\<lparr>available_seats := capacity e - int (booking_count db e)\<rparr>]"
    by (simp add: rows_of_event [OF k m w] with_seats_def same_up_to_status(3) [OF assms])
  from g r show "\<exists>rows. get_events en db' flt req = json 200 (RowsP rows)
             \<and> filter (\<lambda>r. event_id r = event_id e) rows
               = [e\<lparr>available_seats := capacity e - int (booking_count db e)\<rparr>]"
    by blast
next
  assume a: "events_keyed db \<and> users_keyed db \<and> bookings_have_users db
          \<and> flt 0 = None \<and> flt 1 = None
          \<and> e \<in> set (events db) \<and> key_of en eventId = Some (event_id e)
          \<and> organizer_id e = id_user_id u"
  have k: "events_keyed db'" "users_keyed db'" "bookings_have_users db'" "e \<in> set (events db')"
    using a
    by (simp_all add: events_keyed_def users_keyed_def same_up_to_status(1,2,4) [OF assms])
  have f: "flt 0 = None" "flt 1 = None" "key_of en eventId = Some (event_id e)"
    "organizer_id e = id_user_id u"
    using a by simp_all
  let ?as = "select_attendees en eventId db'"
  have 1: "get_attendees en db' flt eventId u
           = json 200 (RosterP e ?as (int (length ?as) * price e))"
    using roster_of_owned(1) [where db = db' and flt = flt, OF k(1,2,3) f(1,2) k(4) f(3,4)] .
  have "list_all2 (roster_entry (users db')) ?as
          (filter (\<lambda>b. b_event_id b = event_id e) (bookings db'))"
    using roster_of_owned(2) [where db = db' and flt = flt, OF k(1,2,3) f(1,2) k(4) f(3,4)] .
  then have "length ?as = booking_count db' e"
    by (simp add: booking_count_def list_all2_lengthD)
  then have 2: "length ?as = booking_count db e"
    by (simp only: same_up_to_status(3) [OF assms])
  from 1 2 show "\<exists>as. get_attendees en db' flt eventId u
                  = json 200 (RosterP e as (int (booking_count db e) * price e))
             \<and> length as = booking_count db e"
    by auto
qed

theorem status_is_ignored_witness:
  "map status (bookings sample_store)
     = [Some ''confirmed'', Some ''cancelled'', Some ''confirmed'', Some ''confirmed'']
   \<and> map status (bookings confirmed_store)
     = [Some ''confirmed'', Some ''confirmed'', Some ''confirmed'', Some ''confirmed'']
   \<and> map b_event_id (bookings sample_store) = [1, 1, 3, 1]
   \<and> blank_status confirmed_store = blank_status sample_store
   \<and> booking_count sample_store ev1 = 3 \<and> capacity ev1 = 2 \<and> price ev1 = 20
   \<and> get_events sample_env sample_store no_faults sample_request
     = json 200 (RowsP [ev3\<lparr>available_seats := 4\<rparr>, ev2, ev1\<lparr>available_seats := - 1\<rparr>])
   \<and> get_attendees sample_env sample_store no_faults ''1''
       \<lparr>id_user_id = 7, id_role = ''organizer''\<rparr>
     = json 200 (RosterP ev1
         [\<lparr>a_name = Some ''Ben'', a_email = Some ''ben@example.org'',
            a_booking_date = (20140, 10), a_status = Some ''confirmed''\<rparr>,
          \<lparr>a_name = Some ''Chen'', a_email = Some ''chen@example.org'',
            a_booking_date = (20141, 20), a_status = Some ''cancelled''\<rparr>,
          \<lparr>a_name = Some ''Asha'', a_email = Some ''asha@example.org'',
            a_booking_date = (20142, 40), a_status = Some ''confirmed''\<rparr>] 60)
   \<and> (\<exists>rows. get_events sample_env sample_store no_faults sample_request = json 200 (RowsP rows)
         \<and> get_events sample_env confirmed_store no_faults sample_request = json 200 (RowsP rows)
         \<and> filter (\<lambda>r. event_id r = event_id ev1) rows = [ev1\<lparr>available_seats := - 1\<rparr>])
   \<and> (\<exists>as as'. get_attendees sample_env sample_store no_faults ''1''
                    \<lparr>id_user_id = 7, id_role = ''organizer''\<rparr>
                  = json 200 (RosterP ev1 as 60)
         \<and> get_attendees sample_env confirmed_store no_faults ''1''
                    \<lparr>id_user_id = 7, id_role = ''organizer''\<rparr>
                  = json 200 (RosterP ev1 as' 60)
         \<and> length as = 3 \<and> length as' = 3
         \<and> map (\<lambda>a. a\<lparr>a_status := None\<rparr>) as' = map (\<lambda>a. a\<lparr>a_status := None\<rparr>) as)"
proof -
  let ?u = "\<lparr>id_user_id = 7, id_role = ''organizer''\<rparr>"
  have b: "blank_status confirmed_store = blank_status sample_store"
    by (simp add: blank_status_def confirmed_store_def comp_def)
  have s: "map status (bookings sample_store)
     = [Some ''confirmed'', Some ''cancelled'', Some ''confirmed'', Some ''confirmed'']"
     "map status (bookings confirmed_store)
     = [Some ''confirmed'', Some ''confirmed'', Some ''confirmed'', Some ''confirmed'']"
     "map b_event_id (bookings sample_store) = [1, 1, 3, 1]"
    by (simp_all add: confirmed_store_def sample_store_def)
  have c: "booking_count sample_store ev1 = 3" "capacity ev1 = 2" "price ev1 = 20"
    by (simp_all add: booking_count_def sample_store_def ev1_def)
  have q: "safe_filter (query sample_request ''location'') = Inr None"
    "safe_filter (query sample_request ''date'') = Inr None"
    by (simp_all add: sample_request_def)
  have h: "events_keyed sample_store" "users_keyed sample_store"
    "bookings_have_users sample_store" "no_faults 0 = None" "no_faults 1 = None"
    "ev1 \<in> set (events sample_store)" "where_clause sample_env None None ev1"
    "key_of sample_env ''1'' = Some (event_id ev1)" "organizer_id ev1 = id_user_id ?u"
    by (simp_all add: sample_keyed sample_integrity no_faults_def sample_events sample_keys
        where_clause_def)
  note t = status_is_ignored
      [where db' = confirmed_store and db = sample_store and en = sample_env
         and flt = no_faults and req = sample_request and eventId = "''1''" and u = ?u
         and loc = None and dt = None and e = ev1, OF b]
  note t0 = status_is_ignored
      [where db' = sample_store and db = sample_store and en = sample_env
         and flt = no_faults and req = sample_request and eventId = "''1''" and u = ?u
         and loc = None and dt = None and e = ev1, OF refl]
  have l: "events_keyed sample_store \<and> no_faults 0 = None
          \<and> safe_filter (query sample_request ''location'') = Inr None
          \<and> safe_filter (query sample_request ''date'') = Inr None
          \<and> ev1 \<in> set (events sample_store) \<and> where_clause sample_env None None ev1"
    using h q by simp
  have r: "events_keyed sample_store \<and> users_keyed sample_store
          \<and> bookings_have_users sample_store
          \<and> no_faults 0 = None \<and> no_faults 1 = None
          \<and> ev1 \<in> set (events sample_store) \<and> key_of sample_env ''1'' = Some (event_id ev1)
          \<and> organizer_id ev1 = id_user_id ?u"
    using h by simp
  from t [THEN conjunct2, THEN conjunct2, THEN conjunct1, THEN mp, OF l] obtain rows
    where rows: "get_events sample_env confirmed_store no_faults sample_request
                 = json 200 (RowsP rows)"
      "filter (\<lambda>r. event_id r = event_id ev1) rows = [ev1\<lparr>available_seats := - 1\<rparr>]"
    unfolding c by auto
  have same: "get_events sample_env confirmed_store no_faults sample_request
                     = get_events sample_env sample_store no_faults sample_request"
    by (rule t [THEN conjunct1])
  from t [THEN conjunct2, THEN conjunct2, THEN conjunct2, THEN mp, OF r]
  obtain as' where as': "get_attendees sample_env confirmed_store no_faults ''1'' ?u
                  = json 200 (RosterP ev1 as' 60)" "length as' = 3"
    unfolding c by auto
  from t0 [THEN conjunct2, THEN conjunct2, THEN conjunct2, THEN mp, OF r]
  obtain as where as: "get_attendees sample_env sample_store no_faults ''1'' ?u
                  = json 200 (RosterP ev1 as 60)" "length as = 3"
    unfolding c by auto
  have "forget_status (get_attendees sample_env confirmed_store no_faults ''1'' ?u)
       = forget_status (get_attendees sample_env sample_store no_faults ''1'' ?u)"
    by (rule t [THEN conjunct2, THEN conjunct1])
  then have eq: "map (\<lambda>a. a\<lparr>a_status := None\<rparr>) as' = map (\<lambda>a. a\<lparr>a_status := None\<rparr>) as"
    by (simp add: as as' forget_status_def json_def)
  have rows0: "get_events sample_env sample_store no_faults sample_request = json 200 (RowsP rows)"
    using rows(1) same by simp
  show ?thesis
    using rows rows0 as as' eq b s c sample_listing sample_roster by blast
qed

end
